theory Spec2Isabelle
  imports Main "HOL-Library.Word"
begin

unbundle bit_operations_syntax

section \<open>Device-side model of UpdaterGPUScBFM\_AB\_Type.cu\<close>

text \<open>
  The kernels of the updater are embedded as functions on an explicit device memory.
  Positions, the lattice index and the flag byte are machine words; every addition,
  shift and mask below is the 32-bit (or 8-bit) operation of the source.
\<close>

subsection \<open>Types declared in the header\<close>

text \<open>
  Modelled from the spec: the header \<^verbatim>\<open>UpdaterGPUScBFM_AB_Type.h\<close> is not part of the
  sources at hand, so \<^verbatim>\<open>intCUDA\<close>, \<^verbatim>\<open>uintCUDA\<close>, \<^verbatim>\<open>T_Flags\<close>,
  \<^verbatim>\<open>MAX_CONNECTIVITY\<close> and \<^verbatim>\<open>MonomerEdges\<close> follow the specification: positions are
  32-bit signed integers ("32-bit acceptable"), the per-monomer flag is a byte, a monomer
  stores up to \<^verbatim>\<open>MAX_CONNECTIVITY = 7\<close> neighbour indices together with their number.
\<close>

type_synonym intCUDA = "32 word"
type_synonym uintCUDA = "32 word"
type_synonym T_Flags = "8 word"

definition MAX_CONNECTIVITY :: nat where
  "MAX_CONNECTIVITY = 7"

record MonomerEdges =
  size_edges :: "32 word"
  neighborIds :: "nat \<Rightarrow> 32 word"

text \<open>The CUDA vector type \<^verbatim>\<open>int4\<close> behind \<^verbatim>\<open>intCUDAVec< intCUDA >::value_type\<close>.\<close>

record int4 =
  x4 :: intCUDA
  y4 :: intCUDA
  z4 :: intCUDA
  w4 :: intCUDA

subsection \<open>Constant memory\<close>

text \<open>
  The direction tables as \<^verbatim>\<open>initialize\<close> uploads them. A read beyond the six entries is
  outside the array in the source; the model returns 0 there.
\<close>

definition tableAt :: "intCUDA list \<Rightarrow> 32 word \<Rightarrow> intCUDA" where
  "tableAt t i = (if unat i < length t then t ! unat i else 0)"

definition DXTable_d :: "32 word \<Rightarrow> intCUDA" where
  "DXTable_d = tableAt [-1, 1, 0, 0, 0, 0]"

definition DYTable_d :: "32 word \<Rightarrow> intCUDA" where
  "DYTable_d = tableAt [0, 0, -1, 1, 0, 0]"

definition DZTable_d :: "32 word \<Rightarrow> intCUDA" where
  "DZTable_d = tableAt [0, 0, 0, 0, -1, 1]"

record dconst =
  dpForbiddenBonds :: "uintCUDA \<Rightarrow> bool"
  dcBoxXM1 :: "32 word"
  dcBoxYM1 :: "32 word"
  dcBoxZM1 :: "32 word"
  dcBoxXLog2 :: "32 word"
  dcBoxXYLog2 :: "32 word"

subsection \<open>Device functions\<close>

definition hash :: "32 word \<Rightarrow> 32 word" where
  "hash a0 =
     (let a1 = (a0 + 0x7ed55d16) + push_bit 12 a0;
          a2 = (a1 XOR 0xc761c23c) XOR drop_bit 19 a1;
          a3 = (a2 + 0x165667b1) + push_bit 5 a2;
          a4 = (a3 + 0xd3a2646c) XOR push_bit 9 a3;
          a5 = (a4 + 0xfd7046c5) + push_bit 3 a4;
          a6 = (a5 XOR 0xb55a4f09) XOR drop_bit 16 a5
      in a6)"

definition isPowerOfTwo :: "32 word \<Rightarrow> bool" where
  "isPowerOfTwo v \<longleftrightarrow> \<not> (v = 0) \<and> (v AND (v - 1)) = 0"

definition linearizeBoxVectorIndex :: "dconst \<Rightarrow> 32 word \<Rightarrow> 32 word \<Rightarrow> 32 word \<Rightarrow> 32 word" where
  "linearizeBoxVectorIndex c ix iy iz =
     (ix AND dcBoxXM1 c)
     + push_bit (unat (dcBoxXLog2 c)) (iy AND dcBoxYM1 c)
     + push_bit (unat (dcBoxXYLog2 c)) (iz AND dcBoxZM1 c)"

text \<open>
  \<^verbatim>\<open>checkFront\<close>, the branch that is compiled (\<^verbatim>\<open>#else\<close>). The texture is the lattice it
  is bound to, a byte per linear index; the nine fetched bytes are OR-ed and the result
  is converted to \<^verbatim>\<open>bool\<close>. For \<^verbatim>\<open>axis >> 1\<close> outside 0..2 no case of the
  \<^verbatim>\<open>switch\<close> applies and \<^verbatim>\<open>isOccupied\<close> keeps its initial value.
\<close>

definition checkFront ::
  "dconst \<Rightarrow> (32 word \<Rightarrow> 8 word) \<Rightarrow> intCUDA \<Rightarrow> intCUDA \<Rightarrow> intCUDA \<Rightarrow> intCUDA \<Rightarrow> bool" where
  "checkFront c texLattice x0 y0 z0 axis =
     (let x0Abs = (x0    ) AND dcBoxXM1 c;
          x0PDX = (x0 + 1) AND dcBoxXM1 c;
          x0MDX = (x0 - 1) AND dcBoxXM1 c;
          y0Abs = push_bit (unat (dcBoxXLog2 c)) ((y0    ) AND dcBoxYM1 c);
          y0PDY = push_bit (unat (dcBoxXLog2 c)) ((y0 + 1) AND dcBoxYM1 c);
          y0MDY = push_bit (unat (dcBoxXLog2 c)) ((y0 - 1) AND dcBoxYM1 c);
          z0Abs = push_bit (unat (dcBoxXYLog2 c)) ((z0    ) AND dcBoxZM1 c);
          z0PDZ = push_bit (unat (dcBoxXYLog2 c)) ((z0 + 1) AND dcBoxZM1 c);
          z0MDZ = push_bit (unat (dcBoxXYLog2 c)) ((z0 - 1) AND dcBoxZM1 c);
          dx = DXTable_d axis;
          dy = DYTable_d axis;
          dz = DZTable_d axis
      in if signed_drop_bit 1 axis = 0 then
           (let x1 = (x0 + 2 * dx) AND dcBoxXM1 c in
              (texLattice (x1 + y0MDY + z0Abs) OR
               texLattice (x1 + y0Abs + z0Abs) OR
               texLattice (x1 + y0PDY + z0Abs) OR
               texLattice (x1 + y0MDY + z0MDZ) OR
               texLattice (x1 + y0Abs + z0MDZ) OR
               texLattice (x1 + y0PDY + z0MDZ) OR
               texLattice (x1 + y0MDY + z0PDZ) OR
               texLattice (x1 + y0Abs + z0PDZ) OR
               texLattice (x1 + y0PDY + z0PDZ)) \<noteq> 0)
         else if signed_drop_bit 1 axis = 1 then
           (let y1 = push_bit (unat (dcBoxXLog2 c)) ((y0 + 2 * dy) AND dcBoxYM1 c) in
              (texLattice (x0MDX + y1 + z0MDZ) OR
               texLattice (x0Abs + y1 + z0MDZ) OR
               texLattice (x0PDX + y1 + z0MDZ) OR
               texLattice (x0MDX + y1 + z0Abs) OR
               texLattice (x0Abs + y1 + z0Abs) OR
               texLattice (x0PDX + y1 + z0Abs) OR
               texLattice (x0MDX + y1 + z0PDZ) OR
               texLattice (x0Abs + y1 + z0PDZ) OR
               texLattice (x0PDX + y1 + z0PDZ)) \<noteq> 0)
         else if signed_drop_bit 1 axis = 2 then
           (let z1 = push_bit (unat (dcBoxXYLog2 c)) ((z0 + 2 * dz) AND dcBoxZM1 c) in
              (texLattice (x0MDX + y0MDY + z1) OR
               texLattice (x0Abs + y0MDY + z1) OR
               texLattice (x0PDX + y0MDY + z1) OR
               texLattice (x0MDX + y0Abs + z1) OR
               texLattice (x0Abs + y0Abs + z1) OR
               texLattice (x0PDX + y0Abs + z1) OR
               texLattice (x0MDX + y0PDY + z1) OR
               texLattice (x0Abs + y0PDY + z1) OR
               texLattice (x0PDX + y0PDY + z1)) \<noteq> 0)
         else False)"

definition linearizeBondVectorIndex :: "intCUDA \<Rightarrow> intCUDA \<Rightarrow> intCUDA \<Rightarrow> uintCUDA" where
  "linearizeBondVectorIndex x y z =
     (x AND 7) + push_bit 3 (y AND 7) + push_bit 6 (z AND 7)"

subsection \<open>Device memory and the three kernels\<close>

text \<open>
  Global memory: the sorted monomer array seen through the kernels' cast to \<^verbatim>\<open>int4\<close>,
  the flag bytes, the committed lattice (\<^verbatim>\<open>mLatticeOut->gpu\<close>, also read through
  \<^verbatim>\<open>mLatticeOut->texture\<close>), the scratch lattice (\<^verbatim>\<open>mLatticeTmp\<close>) and the sorted neighbour
  matrix. Arrays are maps from the element index to the element.
\<close>

record dmem =
  dpPolymerSystem :: "nat \<Rightarrow> int4"
  dpPolymerFlags :: "nat \<Rightarrow> T_Flags"
  dpLattice :: "32 word \<Rightarrow> 8 word"
  dpLatticeTmp :: "32 word \<Rightarrow> 8 word"
  dpNeighbors :: "nat \<Rightarrow> 32 word"

text \<open>
  One thread of \<^verbatim>\<open>kernelSimulationScBFMCheckSpecies\<close>. \<open>nonperiodic\<close> is the compile-time
  switch \<^verbatim>\<open>NONPERIODICITY\<close>; \<open>iNeighborsOffset\<close> is the offset that the launch adds to
  \<^verbatim>\<open>mNeighborsSorted->gpu\<close>. The neighbour loop returns at the first forbidden bond.
  In the boundary test \<^verbatim>\<open>0 <= x0 + dx\<close> is a signed comparison and
  \<^verbatim>\<open>x0 + dx < dcBoxXM1\<close>, against a \<^verbatim>\<open>uint32_t\<close>, an unsigned one.
\<close>

definition kernelSimulationScBFMCheckSpecies_thread ::
  "dconst \<Rightarrow> bool \<Rightarrow> nat \<Rightarrow> nat \<Rightarrow> nat \<Rightarrow> nat \<Rightarrow> 32 word \<Rightarrow> nat \<Rightarrow> dmem \<Rightarrow> dmem" where
  "kernelSimulationScBFMCheckSpecies_thread c nonperiodic iOffset iNeighborsOffset
       rNeighborsPitchElements nMonomers rSeed iMonomer st =
     (if iMonomer \<ge> nMonomers then st
      else
        let data = dpPolymerSystem st (iOffset + iMonomer);
            x0 = x4 data; y0 = y4 data; z0 = z4 data;
            direction = hash (hash (of_nat iMonomer) XOR rSeed) mod 6;
            dx = DXTable_d direction;
            dy = DYTable_d direction;
            dz = DZTable_d direction;
            st1 = st\<lparr>dpPolymerFlags := (dpPolymerFlags st)(iMonomer + iOffset := 0)\<rparr>;
            nNeighbors = unat (signed_drop_bit 5 (w4 data) AND 7)
        in if nonperiodic \<and>
              \<not> (word_sle 0 (x0 + dx) \<and> x0 + dx < dcBoxXM1 c \<and>
                 word_sle 0 (y0 + dy) \<and> y0 + dy < dcBoxYM1 c \<and>
                 word_sle 0 (z0 + dz) \<and> z0 + dz < dcBoxZM1 c)
           then st1
           else if list_ex (\<lambda>iNeighbor.
                     let iGlobalNeighbor = dpNeighbors st
                           (iNeighborsOffset + (iNeighbor * rNeighborsPitchElements + iMonomer));
                         data2 = dpPolymerSystem st (unat iGlobalNeighbor)
                     in dpForbiddenBonds c (linearizeBondVectorIndex
                          (x4 data2 - x0 - dx) (y4 data2 - y0 - dy) (z4 data2 - z0 - dz)))
                   [0..<nNeighbors]
           then st1
           else if checkFront c (dpLattice st) x0 y0 z0 direction then st1
           else st1\<lparr>dpPolymerFlags :=
                       (dpPolymerFlags st1)(iMonomer + iOffset := ucast (push_bit 2 direction + 1)),
                     dpLatticeTmp :=
                       (dpLatticeTmp st1)(linearizeBoxVectorIndex c (x0 + dx) (y0 + dy) (z0 + dz) := 1)\<rparr>)"

text \<open>
  One thread of \<^verbatim>\<open>kernelSimulationScBFMPerformSpecies\<close>; the launch passes the monomer and
  flag arrays advanced by the species offset, which is \<open>iOffset\<close> here. The texture read
  is the scratch lattice.
\<close>

definition kernelSimulationScBFMPerformSpecies_thread ::
  "dconst \<Rightarrow> nat \<Rightarrow> nat \<Rightarrow> nat \<Rightarrow> dmem \<Rightarrow> dmem" where
  "kernelSimulationScBFMPerformSpecies_thread c iOffset nMonomers iMonomer st =
     (if iMonomer \<ge> nMonomers then st
      else
        let data = dpPolymerSystem st (iOffset + iMonomer);
            x0 = x4 data; y0 = y4 data; z0 = z4 data;
            properties = dpPolymerFlags st (iOffset + iMonomer)
        in if (properties AND 1) = 0 then st
           else
             let direction = (ucast (drop_bit 2 properties) AND 7 :: 32 word);
                 dx = DXTable_d direction;
                 dy = DYTable_d direction;
                 dz = DZTable_d direction
             in if checkFront c (dpLatticeTmp st) x0 y0 z0 direction then st
                else st\<lparr>dpPolymerFlags :=
                            (dpPolymerFlags st)(iOffset + iMonomer := properties OR 2),
                          dpLattice :=
                            ((dpLattice st)
                               (linearizeBoxVectorIndex c (x0 + dx) (y0 + dy) (z0 + dz) := 1))
                               (linearizeBoxVectorIndex c x0 y0 z0 := 0)\<rparr>)"

text \<open>One thread of \<^verbatim>\<open>kernelSimulationScBFMZeroArraySpecies\<close>.\<close>

definition kernelSimulationScBFMZeroArraySpecies_thread ::
  "dconst \<Rightarrow> nat \<Rightarrow> nat \<Rightarrow> nat \<Rightarrow> dmem \<Rightarrow> dmem" where
  "kernelSimulationScBFMZeroArraySpecies_thread c iOffset nMonomers iMonomer st =
     (if iMonomer \<ge> nMonomers then st
      else
        let data = dpPolymerSystem st (iOffset + iMonomer);
            x0 = x4 data; y0 = y4 data; z0 = z4 data;
            properties = dpPolymerFlags st (iOffset + iMonomer)
        in if (properties AND 3) = 0 then st
           else
             let direction = (ucast (drop_bit 2 properties) AND 7 :: 32 word);
                 dx = DXTable_d direction;
                 dy = DYTable_d direction;
                 dz = DZTable_d direction;
                 st1 = st\<lparr>dpLatticeTmp :=
                          (dpLatticeTmp st)(linearizeBoxVectorIndex c (x0 + dx) (y0 + dy) (z0 + dz) := 0)\<rparr>;
                 data1 = (if (properties AND 3) = 3
                          then data\<lparr>x4 := x0 + dx, y4 := y0 + dy, z4 := z0 + dz\<rparr>
                          else data)
             in st1\<lparr>dpPolymerSystem := (dpPolymerSystem st1)(iOffset + iMonomer := data1)\<rparr>)"

text \<open>
  A kernel launch runs every thread once. The threads of one launch are unordered; the
  launch is modelled by applying the threads' effects in the order of a schedule \<open>ts\<close>,
  a list of thread ids without repetition that contains every id below \<open>nMonomers\<close>
  (ids from \<open>nMonomers\<close> on belong to the padding of the last block and return at once).
\<close>

definition schedule :: "nat \<Rightarrow> nat list \<Rightarrow> bool" where
  "schedule nMonomers ts \<longleftrightarrow> distinct ts \<and> list_all (\<lambda>i. i \<in> set ts) [0..<nMonomers]"

definition kernelSimulationScBFMCheckSpecies ::
  "dconst \<Rightarrow> bool \<Rightarrow> nat \<Rightarrow> nat \<Rightarrow> nat \<Rightarrow> nat \<Rightarrow> 32 word \<Rightarrow> nat list \<Rightarrow> dmem \<Rightarrow> dmem" where
  "kernelSimulationScBFMCheckSpecies c nonperiodic iOffset iNeighborsOffset
       rNeighborsPitchElements nMonomers rSeed ts st =
     fold (kernelSimulationScBFMCheckSpecies_thread c nonperiodic iOffset iNeighborsOffset
             rNeighborsPitchElements nMonomers rSeed) ts st"

definition kernelSimulationScBFMPerformSpecies ::
  "dconst \<Rightarrow> nat \<Rightarrow> nat \<Rightarrow> nat list \<Rightarrow> dmem \<Rightarrow> dmem" where
  "kernelSimulationScBFMPerformSpecies c iOffset nMonomers ts st =
     fold (kernelSimulationScBFMPerformSpecies_thread c iOffset nMonomers) ts st"

definition kernelSimulationScBFMZeroArraySpecies ::
  "dconst \<Rightarrow> nat \<Rightarrow> nat \<Rightarrow> nat list \<Rightarrow> dmem \<Rightarrow> dmem" where
  "kernelSimulationScBFMZeroArraySpecies c iOffset nMonomers ts st =
     fold (kernelSimulationScBFMZeroArraySpecies_thread c iOffset nMonomers) ts st"

text \<open>
  One substep of \<^verbatim>\<open>runSimulationOnGPU\<close>: the three launches on one stream, each seeing
  the memory the previous one left.
\<close>

definition substep ::
  "dconst \<Rightarrow> bool \<Rightarrow> nat \<Rightarrow> nat \<Rightarrow> nat \<Rightarrow> nat \<Rightarrow> 32 word \<Rightarrow>
   nat list \<Rightarrow> nat list \<Rightarrow> nat list \<Rightarrow> dmem \<Rightarrow> dmem" where
  "substep c nonperiodic iOffset iNeighborsOffset rNeighborsPitchElements nMonomers rSeed
       tsA tsB tsC st =
     kernelSimulationScBFMZeroArraySpecies c iOffset nMonomers tsC
       (kernelSimulationScBFMPerformSpecies c iOffset nMonomers tsB
          (kernelSimulationScBFMCheckSpecies c nonperiodic iOffset iNeighborsOffset
             rNeighborsPitchElements nMonomers rSeed tsA st))"

subsection \<open>Notions derived from the kernels, used to state their properties\<close>

text \<open>The direction a check thread draws (\<^verbatim>\<open>hash( hash( iMonomer ) ^ rSeed ) % 6\<close>).\<close>

definition proposedDirection :: "32 word \<Rightarrow> nat \<Rightarrow> 32 word" where
  "proposedDirection rSeed iMonomer = hash (hash (of_nat iMonomer) XOR rSeed) mod 6"

text \<open>The direction the perform and zero threads decode (\<^verbatim>\<open>( properties >> 2 ) & 7\<close>).\<close>

definition directionOfFlags :: "T_Flags \<Rightarrow> 32 word" where
  "directionOfFlags properties = ucast (drop_bit 2 properties) AND 7"

text \<open>The linear index of the cell one step from a monomer in a direction.\<close>

definition destinationCell :: "dconst \<Rightarrow> int4 \<Rightarrow> 32 word \<Rightarrow> 32 word" where
  "destinationCell c data direction =
     linearizeBoxVectorIndex c (x4 data + DXTable_d direction) (y4 data + DYTable_d direction)
       (z4 data + DZTable_d direction)"

text \<open>The monomer record after a step in a direction (the tag \<open>w4\<close> is kept).\<close>

definition movedBy :: "int4 \<Rightarrow> 32 word \<Rightarrow> int4" where
  "movedBy data direction =
     data\<lparr>x4 := x4 data + DXTable_d direction, y4 := y4 data + DYTable_d direction,
          z4 := z4 data + DZTable_d direction\<rparr>"

text \<open>
  The protocol invariant of the scratch lattice: every non-zero scratch cell is the
  destination of a flagged monomer of the species whose thread id lies in \<open>D\<close>.
\<close>

definition scratchMarked :: "dconst \<Rightarrow> nat \<Rightarrow> nat \<Rightarrow> nat set \<Rightarrow> dmem \<Rightarrow> bool" where
  "scratchMarked c off n D st \<longleftrightarrow>
     (\<forall>cell. dpLatticeTmp st cell \<noteq> 0 \<longrightarrow>
        (\<exists>i \<in> D. i < n \<and> dpPolymerFlags st (off + i) AND 3 \<noteq> 0 \<and>
           cell = destinationCell c (dpPolymerSystem st (off + i))
                    (directionOfFlags (dpPolymerFlags st (off + i)))))"

text \<open>
  The nine cells of the 3 x 3 face test as the specification describes them: axis
  \<open>a = d >> 1\<close>, sign \<open>s = (d & 1) ? +1 : -1\<close>, the plane \<open>coord[a] + 2 s\<close>, the two other
  axes sweeping -1, 0, +1 around the origin.
\<close>

definition frontPlaneCells :: "dconst \<Rightarrow> intCUDA \<Rightarrow> intCUDA \<Rightarrow> intCUDA \<Rightarrow> 32 word \<Rightarrow> 32 word list" where
  "frontPlaneCells c x y z d =
     (let a = drop_bit 1 d;
          s = (if d AND 1 = 1 then 1 else - 1);
          sweep = [- 1, 0, 1]
      in map (\<lambda>(i, j).
                if a = 0 then linearizeBoxVectorIndex c (x + 2 * s) (y + i) (z + j)
                else if a = 1 then linearizeBoxVectorIndex c (x + i) (y + 2 * s) (z + j)
                else linearizeBoxVectorIndex c (x + i) (y + j) (z + 2 * s))
             (List.product sweep sweep))"


text \<open>
  Constant memory as \<^verbatim>\<open>setLatticeSize\<close> and \<^verbatim>\<open>initialize\<close> fill it for a box with edges
  \<open>2 ^ kx\<close>, \<open>2 ^ ky\<close>, \<open>2 ^ kz\<close>, each at least 4, and \<open>Bx * By \<le> 2 ^ 30\<close>.
\<close>

definition validBox :: "dconst \<Rightarrow> nat \<Rightarrow> nat \<Rightarrow> nat \<Rightarrow> bool" where
  "validBox c kx ky kz \<longleftrightarrow>
     dcBoxXM1 c = 2 ^ kx - 1 \<and> dcBoxYM1 c = 2 ^ ky - 1 \<and> dcBoxZM1 c = 2 ^ kz - 1 \<and>
     dcBoxXLog2 c = of_nat kx \<and> dcBoxXYLog2 c = of_nat (kx + ky) \<and>
     2 \<le> kx \<and> 2 \<le> ky \<and> 2 \<le> kz \<and> kx + ky \<le> 30"

subsection \<open>A small configuration for concrete runs\<close>

text \<open>A periodic 4 x 4 x 4 box without forbidden bonds and an empty device memory.\<close>

definition exampleBox :: dconst where
  "exampleBox = \<lparr>dpForbiddenBonds = (\<lambda>_. False), dcBoxXM1 = 3, dcBoxYM1 = 3, dcBoxZM1 = 3,
                  dcBoxXLog2 = 2, dcBoxXYLog2 = 4\<rparr>"

definition exampleMemory :: dmem where
  "exampleMemory = \<lparr>dpPolymerSystem = (\<lambda>_. \<lparr>x4 = 0, y4 = 0, z4 = 0, w4 = 0\<rparr>),
                     dpPolymerFlags = (\<lambda>_. 0), dpLattice = (\<lambda>_. 0), dpLatticeTmp = (\<lambda>_. 0),
                     dpNeighbors = (\<lambda>_. 0)\<rparr>"

text \<open>The same memory with every monomer at (2,2,2), next to the upper faces of the box.\<close>

definition exampleEdgeMemory :: dmem where
  "exampleEdgeMemory = exampleMemory\<lparr>dpPolymerSystem := (\<lambda>_. \<lparr>x4 = 2, y4 = 2, z4 = 2, w4 = 0\<rparr>)\<rparr>"


section \<open>Host-side model: the class UpdaterGPUScBFM\_AB\_Type\<close>

text \<open>
  A member function is a function from the object to the exception it throws, if any,
  and the object as the call leaves it (a throw does not undo assignments made before it).
\<close>

datatype failure =
    AlreadyInitialized
  | WrongBondSet nat
  | ConnectivityExceeded
  | BoxTooLarge
  | NotPowerOfTwo
  | ScratchOccupied nat
  | LatticeNotAllocated
  | OccupationWrong nat
  | BondInvalid
  | MonomersAlreadySet

datatype exn = runtime_error failure | invalid_argument failure

text \<open>
  The members of the class that the functions below read or write. Vectors and arrays
  are maps from the index; a pointer that may be \<^verbatim>\<open>NULL\<close> is an option, \<open>Some\<close> holding the
  host buffer. \<open>matrixOffsetElements\<close> and \<open>matrixPitchElements\<close> stand for
  \<^verbatim>\<open>mNeighborsSortedInfo\<close>, \<open>randomNumbers\<close> and \<open>iRandom\<close> for the random number generator,
  \<open>logCheck\<close> for \<^verbatim>\<open>mLog.isActive( "Check" )\<close>, \<open>NONPERIODICITY\<close> for the compile-time macro
  of that name, \<open>constMem\<close> and \<open>gpu\<close> for the constant and the global memory of the device.
\<close>

record engine =
  nAllMonomers :: nat
  mPolymerSystem :: "nat \<Rightarrow> intCUDA"
  mNeighbors :: "nat \<Rightarrow> MonomerEdges"
  mForbiddenBonds :: "uintCUDA \<Rightarrow> bool"
  mBoxX :: "32 word"
  mBoxY :: "32 word"
  mBoxZ :: "32 word"
  mBoxXM1 :: "32 word"
  mBoxYM1 :: "32 word"
  mBoxZM1 :: "32 word"
  mBoxXLog2 :: "32 word"
  mBoxXYLog2 :: "32 word"
  mLattice :: "(32 word \<Rightarrow> 8 word) option"
  mLatticeOut :: "(32 word \<Rightarrow> 8 word) option"
  mLatticeTmp :: "(32 word \<Rightarrow> 8 word) option"
  mPolymerSystemSorted :: "(nat \<Rightarrow> intCUDA) option"
  mNeighborsSorted :: "(nat \<Rightarrow> 32 word) option"
  mAttributeSystem :: "(nat \<Rightarrow> 32 word) option"
  iToiNew :: "nat \<Rightarrow> nat"
  mnElementsInGroup :: "nat list"
  iSubGroupOffset :: "nat list"
  matrixOffsetElements :: "nat \<Rightarrow> nat"
  matrixPitchElements :: "nat \<Rightarrow> nat"
  randomNumbers :: "nat \<Rightarrow> 32 word"
  iRandom :: nat
  logCheck :: bool
  NONPERIODICITY :: bool
  constMem :: dconst
  gpu :: dmem

text \<open>\<^verbatim>\<open>copyBondSet\<close> (the specification's \<^verbatim>\<open>setAllowedBond\<close>).\<close>

definition copyBondSet :: "intCUDA \<Rightarrow> intCUDA \<Rightarrow> intCUDA \<Rightarrow> bool \<Rightarrow> engine \<Rightarrow> engine" where
  "copyBondSet dx dy dz bondForbidden e =
     e\<lparr>mForbiddenBonds := (mForbiddenBonds e)(linearizeBondVectorIndex dx dy dz := bondForbidden)\<rparr>"

text \<open>
  The first part of \<^verbatim>\<open>initialize\<close>, up to the upload of the bond table: the guard against
  a second call, the loop that copies the 512 entries and counts the allowed ones, the
  validation of the count and \<^verbatim>\<open>cudaMemcpyToSymbol\<close>. The result \<open>None\<close> means that
  \<^verbatim>\<open>initialize\<close> goes on with the direction tables and the colouring.
\<close>

definition initialize_bondTable :: "engine \<Rightarrow> exn option \<times> engine" where
  "initialize_bondTable e =
     (if mLatticeOut e \<noteq> None \<or> mLatticeTmp e \<noteq> None
      then (Some (runtime_error AlreadyInitialized), e)
      else
        let nAllowedBonds =
              fold (\<lambda>i n. if \<not> mForbiddenBonds e (of_nat i) then n + 1 else n) [0..<512] (0 :: nat)
        in if nAllowedBonds \<noteq> 108
           then (Some (runtime_error (WrongBondSet nAllowedBonds)), e)
           else (None, e\<lparr>constMem := (constMem e)\<lparr>dpForbiddenBonds :=
                           (\<lambda>i. if i < 512 then mForbiddenBonds e i
                                else dpForbiddenBonds (constMem e) i)\<rparr>\<rparr>))"

text \<open>
  \<^verbatim>\<open>setConnectivity\<close> (the specification's \<^verbatim>\<open>addBond\<close>). The stored number of neighbours
  is incremented by the post-increment before the bound is tested.
\<close>

definition setConnectivity :: "engine \<Rightarrow> nat \<Rightarrow> 32 word \<Rightarrow> exn option \<times> engine" where
  "setConnectivity e iMonomer1 iMonomer2 =
     (let iNew = size_edges (mNeighbors e iMonomer1);
          e1 = e\<lparr>mNeighbors := (mNeighbors e)
                  (iMonomer1 := (mNeighbors e iMonomer1)\<lparr>size_edges := iNew + 1\<rparr>)\<rparr>
      in if iNew > of_nat (MAX_CONNECTIVITY - 1)
         then (Some (invalid_argument ConnectivityExceeded), e1)
         else (None, e1\<lparr>mNeighbors := (mNeighbors e1)
                 (iMonomer1 := (mNeighbors e1 iMonomer1)\<lparr>neighborIds :=
                    (neighborIds (mNeighbors e1 iMonomer1))(unat iNew := iMonomer2)\<rparr>)\<rparr>))"

text \<open>
  Modelled from the spec: \<^verbatim>\<open>inRange\<close> is declared outside the sources at hand. By the
  error message of \<^verbatim>\<open>setLatticeSize\<close> and the specification's "out-of-range coordinate"
  error, \<^verbatim>\<open>inRange< intCUDA >( v )\<close> holds if \<open>v\<close> is representable in \<^verbatim>\<open>intCUDA\<close>.
\<close>

definition inRange :: "32 word \<Rightarrow> bool" where
  "inRange v \<longleftrightarrow> uint v \<le> 2 ^ 31 - 1"

text \<open>The loop \<^verbatim>\<open>while ( dummy >>= 1 ) ++log2\<close> of \<^verbatim>\<open>setLatticeSize\<close>.\<close>

function shiftCount :: "32 word \<Rightarrow> 32 word \<Rightarrow> 32 word" where
  "shiftCount dummy n = (if drop_bit 1 dummy \<noteq> 0 then shiftCount (drop_bit 1 dummy) (n + 1) else n)"
  by pat_completeness auto
termination
proof (relation "measure (\<lambda>(dummy, n). unat dummy)")
  show "wf (measure (\<lambda>(dummy, n). unat dummy))" by simp
next
  fix dummy n :: "32 word"
  assume "drop_bit 1 dummy \<noteq> 0"
  then have "unat (drop_bit 1 dummy) \<noteq> 0"
    by (simp add: unat_eq_0)
  moreover have "unat (drop_bit 1 dummy) = unat dummy div 2"
    by (simp add: drop_bit_eq_div unat_div)
  ultimately show "((drop_bit 1 dummy, n + 1), (dummy, n)) \<in> measure (\<lambda>(dummy, n). unat dummy)"
    by simp
qed

declare shiftCount.simps [simp del]

definition setLatticeSize :: "engine \<Rightarrow> 32 word \<Rightarrow> 32 word \<Rightarrow> 32 word \<Rightarrow> exn option \<times> engine" where
  "setLatticeSize e boxX boxY boxZ =
     (if mBoxX e = boxX \<and> mBoxY e = boxY \<and> mBoxZ e = boxZ then (None, e)
      else if \<not> (inRange boxX \<and> inRange boxY \<and> inRange boxZ)
      then (Some (invalid_argument BoxTooLarge), e)
      else
        let e1 = e\<lparr>mBoxX := boxX, mBoxY := boxY, mBoxZ := boxZ,
                   mBoxXM1 := boxX - 1, mBoxYM1 := boxY - 1, mBoxZM1 := boxZ - 1\<rparr>;
            e2 = e1\<lparr>mBoxXLog2 := shiftCount (mBoxX e1) 0\<rparr>;
            e3 = e2\<lparr>mBoxXYLog2 := shiftCount (mBoxX e2 * mBoxY e2) 0\<rparr>
        in if mBoxX e3 \<noteq> push_bit (unat (mBoxXLog2 e3)) 1 \<or>
              mBoxX e3 * boxY \<noteq> push_bit (unat (mBoxXYLog2 e3)) 1
           then (Some (runtime_error NotPowerOfTwo), e3)
           else (None, e3\<lparr>mLattice := Some (\<lambda>_. 0)\<rparr>))"

text \<open>A power of two that a 32-bit word can hold.\<close>

definition powerOfTwo :: "32 word \<Rightarrow> bool" where
  "powerOfTwo v \<longleftrightarrow> list_ex (\<lambda>k. v = 2 ^ k) [0..<32]"

text \<open>
  \<^verbatim>\<open>setNrOfAllMonomers\<close>. It succeeds only while \<^verbatim>\<open>nAllMonomers\<close> is 0, so the vectors
  it resizes were empty and every element is value-initialised; \<^verbatim>\<open>mNeighbors\<close> is
  cleared by \<^verbatim>\<open>memset\<close>.
\<close>

definition setNrOfAllMonomers :: "engine \<Rightarrow> nat \<Rightarrow> exn option \<times> engine" where
  "setNrOfAllMonomers e rnAllMonomers =
     (if nAllMonomers e \<noteq> 0 \<or> mAttributeSystem e \<noteq> None \<or>
         mPolymerSystemSorted e \<noteq> None \<or> mNeighborsSorted e \<noteq> None
      then (Some (runtime_error MonomersAlreadySet), e)
      else (None, e\<lparr>nAllMonomers := rnAllMonomers,
                     mAttributeSystem := Some (\<lambda>_. 0),
                     mPolymerSystem := (\<lambda>_. 0),
                     mNeighbors := (\<lambda>_. \<lparr>size_edges = 0, neighborIds = (\<lambda>_. 0)\<rparr>)\<rparr>))"

text \<open>
  The object the constructor leaves: no monomers, no arrays, box members 0, the "Check"
  log level deactivated. Members the constructor does not set (the bond table, the
  random number generator, the index maps) get fixed values here; no property below
  depends on them.
\<close>

definition constructed :: engine where
  "constructed =
     \<lparr>nAllMonomers = 0, mPolymerSystem = (\<lambda>_. 0),
      mNeighbors = (\<lambda>_. \<lparr>size_edges = 0, neighborIds = (\<lambda>_. 0)\<rparr>),
      mForbiddenBonds = (\<lambda>_. False),
      mBoxX = 0, mBoxY = 0, mBoxZ = 0, mBoxXM1 = 0, mBoxYM1 = 0, mBoxZM1 = 0,
      mBoxXLog2 = 0, mBoxXYLog2 = 0,
      mLattice = None, mLatticeOut = None, mLatticeTmp = None,
      mPolymerSystemSorted = None, mNeighborsSorted = None, mAttributeSystem = None,
      iToiNew = (\<lambda>i. i), mnElementsInGroup = [], iSubGroupOffset = [],
      matrixOffsetElements = (\<lambda>_. 0), matrixPitchElements = (\<lambda>_. 0),
      randomNumbers = (\<lambda>_. 0), iRandom = 0, logCheck = False, NONPERIODICITY = False,
      constMem = exampleBox, gpu = exampleMemory\<rparr>"

subsection \<open>Running the simulation\<close>

text \<open>
  The host member \<^verbatim>\<open>linearizeBoxVectorIndex\<close> (the branch without \<^verbatim>\<open>NOMAGIC\<close>), on the
  box members of the object.
\<close>

definition linearizeBoxVectorIndex_host :: "engine \<Rightarrow> 32 word \<Rightarrow> 32 word \<Rightarrow> 32 word \<Rightarrow> 32 word" where
  "linearizeBoxVectorIndex_host e ix iy iz =
     (ix AND mBoxXM1 e)
     + push_bit (unat (mBoxXLog2 e)) (iy AND mBoxYM1 e)
     + push_bit (unat (mBoxXYLog2 e)) (iz AND mBoxZM1 e)"

text \<open>
  \<^verbatim>\<open>checkSystem\<close>: nothing unless the "Check" level is active; otherwise it marks the 8
  cells of every monomer in \<^verbatim>\<open>mLattice\<close>, counts the occupied cells and tests every bond.
\<close>

definition checkSystem :: "engine \<Rightarrow> exn option \<times> engine" where
  "checkSystem e =
     (if \<not> logCheck e then (None, e)
      else if mLattice e = None then (Some (invalid_argument LatticeNotAllocated), e)
      else
        let mark = (\<lambda>i lat.
               let x = mPolymerSystem e (4 * i);
                   y = mPolymerSystem e (4 * i + 1);
                   z = mPolymerSystem e (4 * i + 2)
               in lat(linearizeBoxVectorIndex_host e x y z := 1,
                      linearizeBoxVectorIndex_host e (x + 1) y z := 1,
                      linearizeBoxVectorIndex_host e x (y + 1) z := 1,
                      linearizeBoxVectorIndex_host e (x + 1) (y + 1) z := 1,
                      linearizeBoxVectorIndex_host e x y (z + 1) := 1,
                      linearizeBoxVectorIndex_host e (x + 1) y (z + 1) := 1,
                      linearizeBoxVectorIndex_host e x (y + 1) (z + 1) := 1,
                      linearizeBoxVectorIndex_host e (x + 1) (y + 1) (z + 1) := 1));
            lat = fold mark [0..<nAllMonomers e] (\<lambda>_. 0);
            e1 = e\<lparr>mLattice := Some lat\<rparr>;
            nOccupied = fold (\<lambda>i n. if lat (of_nat i) \<noteq> 0 then n + 1 else n)
                          [0..<unat (mBoxX e * mBoxY e * mBoxZ e)] (0 :: 32 word)
        in if \<not> (nOccupied = of_nat (nAllMonomers e) * 8)
           then (Some (runtime_error (OccupationWrong (unat nOccupied))), e1)
           else if list_ex (\<lambda>i. list_ex (\<lambda>iNeighbor.
                       let j = unat (neighborIds (mNeighbors e i) iNeighbor);
                           dx = mPolymerSystem e (4 * j) - mPolymerSystem e (4 * i);
                           dy = mPolymerSystem e (4 * j + 1) - mPolymerSystem e (4 * i + 1);
                           dz = mPolymerSystem e (4 * j + 2) - mPolymerSystem e (4 * i + 2)
                       in \<not> (word_sle (- 3) dx \<and> word_sle dx 3) \<or>
                          \<not> (word_sle (- 3) dy \<and> word_sle dy 3) \<or>
                          \<not> (word_sle (- 3) dz \<and> word_sle dz 3) \<or>
                          mForbiddenBonds e (linearizeBondVectorIndex dx dy dz))
                     [0..<unat (size_edges (mNeighbors e i))])
                   [0..<nAllMonomers e]
           then (Some (runtime_error BondInvalid), e1)
           else (None, e1))"

text \<open>
  Modelled from the spec: \<^verbatim>\<open>ceilDiv\<close> comes from \<^verbatim>\<open>cudacommon.hpp\<close>, which is not among
  the sources; it is the quotient rounded up.
\<close>

definition ceilDiv :: "nat \<Rightarrow> nat \<Rightarrow> nat" where
  "ceilDiv a b = (a + b - 1) div b"

text \<open>
  The random number generator is a collaborator outside the sources: \<^verbatim>\<open>r250_rand32\<close>
  returns the next element of the stream \<^verbatim>\<open>randomNumbers\<close>.
\<close>

definition r250_rand32 :: "engine \<Rightarrow> 32 word \<times> engine" where
  "r250_rand32 e = (randomNumbers e (iRandom e), e\<lparr>iRandom := iRandom e + 1\<rparr>)"

text \<open>
  One iteration of the inner loop of \<^verbatim>\<open>runSimulationOnGPU\<close>: a random species, a seed,
  and the three launches with \<^verbatim>\<open>nBlocks * nThreads\<close> threads each, here applied in the
  order of their ids. The statistics kernels of the "Stats" level do not write the
  memory modelled here and are left out, as are logging and timing.
\<close>

definition mcSubStep :: "engine \<Rightarrow> engine" where
  "mcSubStep e =
     (let (r, e1) = r250_rand32 e;
          iSpecies = unat r mod length (mnElementsInGroup e1);
          (seed, e2) = r250_rand32 e1;
          nBlocks = ceilDiv (mnElementsInGroup e2 ! iSpecies) 256;
          ts = [0..<nBlocks * 256]
      in e2\<lparr>gpu := substep (constMem e2) (NONPERIODICITY e2) (iSubGroupOffset e2 ! iSpecies)
                      (matrixOffsetElements e2 iSpecies) (matrixPitchElements e2 iSpecies)
                      (mnElementsInGroup e2 ! iSpecies) seed ts ts ts (gpu e2)\<rparr>)"

fun mcSubSteps :: "nat \<Rightarrow> engine \<Rightarrow> engine" where
  "mcSubSteps 0 e = e"
| "mcSubSteps (Suc k) e = mcSubSteps k (mcSubStep e)"

fun mcSteps :: "nat \<Rightarrow> engine \<Rightarrow> engine" where
  "mcSteps 0 e = e"
| "mcSteps (Suc k) e = mcSteps k (mcSubSteps (length (mnElementsInGroup e)) e)"

text \<open>\<^verbatim>\<open>MirroredVector::pop\<close> of the sorted monomers: the host mirror becomes the device array.\<close>

definition popPolymerSystemSorted :: "dmem \<Rightarrow> nat \<Rightarrow> intCUDA" where
  "popPolymerSystemSorted m j =
     (let data = dpPolymerSystem m (j div 4)
      in if j mod 4 = 0 then x4 data else if j mod 4 = 1 then y4 data
         else if j mod 4 = 2 then z4 data else w4 data)"

text \<open>
  \<^verbatim>\<open>runSimulationOnGPU\<close>: the loop \<^verbatim>\<open>for ( iStep = 1; iStep <= nMonteCarloSteps; ++iStep )\<close>
  runs \<open>nat nMonteCarloSteps\<close> times; then, at the "Check" level, the scratch lattice is
  copied back and must be empty; the sorted monomers are copied back and written to
  \<^verbatim>\<open>mPolymerSystem\<close> in the original order; \<^verbatim>\<open>checkSystem\<close> ends the call.
\<close>

definition runSimulationOnGPU :: "int \<Rightarrow> engine \<Rightarrow> exn option \<times> engine" where
  "runSimulationOnGPU nMonteCarloSteps e =
     (let e1 = mcSteps (nat nMonteCarloSteps) e;
          e2 = (if logCheck e1 then e1\<lparr>mLatticeTmp := Some (dpLatticeTmp (gpu e1))\<rparr> else e1);
          nOccupied = (if logCheck e1
                       then fold (\<lambda>i n. if dpLatticeTmp (gpu e1) (of_nat i) \<noteq> 0 then n + 1 else n)
                              [0..<unat (mBoxX e1 * mBoxY e1 * mBoxZ e1)] (0 :: nat)
                       else 0)
      in if nOccupied \<noteq> 0 then (Some (runtime_error (ScratchOccupied nOccupied)), e2)
         else
           let host = popPolymerSystemSorted (gpu e2);
               e3 = e2\<lparr>mPolymerSystemSorted := Some host\<rparr>;
               e4 = e3\<lparr>mPolymerSystem :=
                      fold (\<lambda>i ps. ps(4 * i := host (4 * iToiNew e3 i),
                                        4 * i + 1 := host (4 * iToiNew e3 i + 1),
                                        4 * i + 2 := host (4 * iToiNew e3 i + 2),
                                        4 * i + 3 := host (4 * iToiNew e3 i + 3)))
                        [0..<nAllMonomers e3] (mPolymerSystem e3)\<rparr>
           in checkSystem e4)"

definition getMonomerPositionInX :: "engine \<Rightarrow> nat \<Rightarrow> intCUDA" where
  "getMonomerPositionInX e i = mPolymerSystem e (4 * i)"

definition getMonomerPositionInY :: "engine \<Rightarrow> nat \<Rightarrow> intCUDA" where
  "getMonomerPositionInY e i = mPolymerSystem e (4 * i + 1)"

definition getMonomerPositionInZ :: "engine \<Rightarrow> nat \<Rightarrow> intCUDA" where
  "getMonomerPositionInZ e i = mPolymerSystem e (4 * i + 2)"

text \<open>
  The state \<^verbatim>\<open>initialize\<close> establishes and every run keeps: the device array holds, at
  the sorted index of every monomer, the four values \<^verbatim>\<open>mPolymerSystem\<close> holds for it.
\<close>

definition sortedInSync :: "engine \<Rightarrow> bool" where
  "sortedInSync e \<longleftrightarrow>
     (\<forall>i < nAllMonomers e.
        dpPolymerSystem (gpu e) (iToiNew e i) =
          \<lparr>x4 = mPolymerSystem e (4 * i), y4 = mPolymerSystem e (4 * i + 1),
           z4 = mPolymerSystem e (4 * i + 2), w4 = mPolymerSystem e (4 * i + 3)\<rparr>)"

text \<open>
  The end of \<^verbatim>\<open>initialize\<close> that concerns the monomer array: the neighbour count is
  written into bits 5..7 of the tag, every monomer is copied to its sorted index in the
  host mirror, and \<^verbatim>\<open>pushAsync\<close> copies the mirror to the device. The mirror is newly
  allocated; the model starts it from zeros.
\<close>

definition initialize_sortMonomers :: "engine \<Rightarrow> engine" where
  "initialize_sortMonomers e =
     (let e1 = e\<lparr>mPolymerSystem :=
                   fold (\<lambda>i ps. ps(4 * i + 3 := ps (4 * i + 3) OR push_bit 5 (size_edges (mNeighbors e i))))
                     [0..<nAllMonomers e] (mPolymerSystem e)\<rparr>;
          host = fold (\<lambda>i h. h(4 * iToiNew e1 i := mPolymerSystem e1 (4 * i),
                                4 * iToiNew e1 i + 1 := mPolymerSystem e1 (4 * i + 1),
                                4 * iToiNew e1 i + 2 := mPolymerSystem e1 (4 * i + 2),
                                4 * iToiNew e1 i + 3 := mPolymerSystem e1 (4 * i + 3)))
                   [0..<nAllMonomers e1] (\<lambda>_. 0)
      in e1\<lparr>mPolymerSystemSorted := Some host,
             gpu := (gpu e1)\<lparr>dpPolymerSystem :=
                      (\<lambda>j. \<lparr>x4 = host (4 * j), y4 = host (4 * j + 1),
                             z4 = host (4 * j + 2), w4 = host (4 * j + 3)\<rparr>)\<rparr>\<rparr>)"

subsection \<open>Concrete engines\<close>

text \<open>Monomer 0 of nine monomers after seven successful calls of \<^verbatim>\<open>setConnectivity\<close>.\<close>

definition sevenBonds :: engine where
  "sevenBonds = fold (\<lambda>j e. snd (setConnectivity e 0 j)) [1, 2, 3, 4, 5, 6, 7]
                  (snd (setNrOfAllMonomers constructed 9))"

text \<open>A bond table whose first 108 entries are allowed and whose other entries are forbidden.\<close>

definition firstAllowed :: engine where
  "firstAllowed = constructed\<lparr>mForbiddenBonds := (\<lambda>i. 108 \<le> i)\<rparr>"

text \<open>Two monomers, bonded to each other, sorted in the opposite order.\<close>

definition twoMonomers :: engine where
  "twoMonomers =
     initialize_sortMonomers
       ((snd (setConnectivity (snd (setConnectivity (snd (setNrOfAllMonomers constructed 2)) 0 1)) 1 0))
          \<lparr>mPolymerSystem := (\<lambda>j. of_nat j), iToiNew := (\<lambda>i. 1 - i)\<rparr>)"

section \<open>Properties of the kernels\<close>

subsection \<open>Directions and the flag byte\<close>

lemma direction_cases:
  fixes d :: "32 word"
  assumes "d < 6"
  shows "d = 0 \<or> d = 1 \<or> d = 2 \<or> d = 3 \<or> d = 4 \<or> d = 5"
proof -
  have "unat d < 6" using assms by (simp add: word_less_nat_alt)
  then have "unat d = 0 \<or> unat d = 1 \<or> unat d = 2 \<or> unat d = 3 \<or> unat d = 4 \<or> unat d = 5"
    by arith
  moreover have "\<And>n. unat d = n \<Longrightarrow> d = of_nat n"
    by auto
  ultimately have "d = of_nat 0 \<or> d = of_nat 1 \<or> d = of_nat 2 \<or> d = of_nat 3 \<or> d = of_nat 4 \<or> d = of_nat 5"
    by blast
  then show ?thesis by simp
qed

lemma mod6_less: "(v :: 32 word) mod 6 < 6"
  by (simp add: word_mod_less_divisor)

lemma proposedDirection_less: "proposedDirection rSeed i < 6"
  by (simp add: proposedDirection_def mod6_less)

lemma flag_roundtrip:
  fixes d :: "32 word"
  assumes "d < 6"
  shows "directionOfFlags (ucast (push_bit 2 d + 1)) = d"
  using direction_cases[OF assms] unfolding directionOfFlags_def by auto

lemma flag_bits:
  fixes d :: "32 word"
  assumes "d < 6"
  shows "(ucast (push_bit 2 d + 1) :: 8 word) AND 1 = 1"
    "(ucast (push_bit 2 d + 1) :: 8 word) AND 3 = 1"
    "(ucast (push_bit 2 d + 1) :: 8 word) \<noteq> 0"
  using direction_cases[OF assms] by auto

subsection \<open>The check kernel\<close>

lemma check_thread_frame:
  "dpPolymerSystem (kernelSimulationScBFMCheckSpecies_thread c np off noff pitch n seed i st) = dpPolymerSystem st"
  "dpLattice (kernelSimulationScBFMCheckSpecies_thread c np off noff pitch n seed i st) = dpLattice st"
  "dpNeighbors (kernelSimulationScBFMCheckSpecies_thread c np off noff pitch n seed i st) = dpNeighbors st"
  by (simp_all add: kernelSimulationScBFMCheckSpecies_thread_def Let_def)

lemma check_thread_flags_other:
  "j \<noteq> off + i \<Longrightarrow>
   dpPolymerFlags (kernelSimulationScBFMCheckSpecies_thread c np off noff pitch n seed i st) j
     = dpPolymerFlags st j"
  by (simp add: kernelSimulationScBFMCheckSpecies_thread_def Let_def add.commute)

text \<open>The effect of one check thread, read off its own flag.\<close>

lemma check_thread_result:
  fixes c np off noff pitch n seed i st
  defines "st' \<equiv> kernelSimulationScBFMCheckSpecies_thread c np off noff pitch n seed i st"
  assumes "i < n"
  shows "(dpPolymerFlags st' (off + i) = 0 \<and>
          st' = st\<lparr>dpPolymerFlags := (dpPolymerFlags st)(off + i := 0)\<rparr>) \<or>
         (dpPolymerFlags st' (off + i) = ucast (push_bit 2 (proposedDirection seed i) + 1) \<and>
          st' = st\<lparr>dpPolymerFlags := (dpPolymerFlags st)
                      (off + i := ucast (push_bit 2 (proposedDirection seed i) + 1)),
                    dpLatticeTmp := (dpLatticeTmp st)
                      (destinationCell c (dpPolymerSystem st (off + i)) (proposedDirection seed i) := 1)\<rparr>)"
  using assms(2) unfolding st'_def
  by (simp add: kernelSimulationScBFMCheckSpecies_thread_def Let_def add.commute
        proposedDirection_def destinationCell_def)

lemma check_kernel_frame:
  "dpPolymerSystem (kernelSimulationScBFMCheckSpecies c np off noff pitch n seed ts st) = dpPolymerSystem st"
  "dpLattice (kernelSimulationScBFMCheckSpecies c np off noff pitch n seed ts st) = dpLattice st"
  "dpNeighbors (kernelSimulationScBFMCheckSpecies c np off noff pitch n seed ts st) = dpNeighbors st"
  unfolding kernelSimulationScBFMCheckSpecies_def
  by (induction ts arbitrary: st; simp add: check_thread_frame)+

lemma check_kernel_flags_other:
  "\<forall>i \<in> set ts. j \<noteq> off + i \<Longrightarrow>
   dpPolymerFlags (kernelSimulationScBFMCheckSpecies c np off noff pitch n seed ts st) j
     = dpPolymerFlags st j"
  unfolding kernelSimulationScBFMCheckSpecies_def
  by (induction ts arbitrary: st) (simp_all add: check_thread_flags_other)

lemma check_thread_tmp_one:
  "dpLatticeTmp st cell = 1 \<Longrightarrow>
   dpLatticeTmp (kernelSimulationScBFMCheckSpecies_thread c np off noff pitch n seed i st) cell = 1"
  by (simp add: kernelSimulationScBFMCheckSpecies_thread_def Let_def)

lemma check_kernel_tmp_one:
  "dpLatticeTmp st cell = 1 \<Longrightarrow>
   dpLatticeTmp (kernelSimulationScBFMCheckSpecies c np off noff pitch n seed ts st) cell = 1"
  unfolding kernelSimulationScBFMCheckSpecies_def
  by (induction ts arbitrary: st) (simp_all add: check_thread_tmp_one)

text \<open>
  Whatever the order of the threads, the flag of monomer \<open>m\<close> after the launch is the one
  its own thread wrote: 0, or the encoded direction together with the scratch mark.
\<close>

lemma check_kernel_flag:
  assumes "distinct ts" "m \<in> set ts" "m < n"
  shows "dpPolymerFlags (kernelSimulationScBFMCheckSpecies c np off noff pitch n seed ts st) (off + m) = 0 \<or>
         (dpPolymerFlags (kernelSimulationScBFMCheckSpecies c np off noff pitch n seed ts st) (off + m)
            = ucast (push_bit 2 (proposedDirection seed m) + 1) \<and>
          dpLatticeTmp (kernelSimulationScBFMCheckSpecies c np off noff pitch n seed ts st)
            (destinationCell c (dpPolymerSystem st (off + m)) (proposedDirection seed m)) = 1)"
  using assms(1,2)
proof (induction ts arbitrary: st)
  case Nil
  then show ?case by simp
next
  case (Cons j ts)
  let ?K = "kernelSimulationScBFMCheckSpecies c np off noff pitch n seed"
  let ?st1 = "kernelSimulationScBFMCheckSpecies_thread c np off noff pitch n seed j st"
  have unfold: "?K (j # ts) st = ?K ts ?st1"
    by (simp add: kernelSimulationScBFMCheckSpecies_def)
  show ?case
  proof (cases "j = m")
    case True
    then have notin: "\<forall>i \<in> set ts. off + m \<noteq> off + i"
      using Cons.prems by auto
    have keep: "dpPolymerFlags (?K ts ?st1) (off + m) = dpPolymerFlags ?st1 (off + m)"
      by (rule check_kernel_flags_other [OF notin])
    let ?d = "proposedDirection seed m"
    let ?cell = "destinationCell c (dpPolymerSystem st (off + m)) ?d"
    from check_thread_result [OF assms(3), of c np off noff pitch seed st]
    consider (rej) "dpPolymerFlags ?st1 (off + m) = 0"
      | (acc) "dpPolymerFlags ?st1 (off + m) = ucast (push_bit 2 ?d + 1)"
              "dpLatticeTmp ?st1 ?cell = 1"
      unfolding True
    proof (elim disjE conjE, goal_cases)
      case 1
      then show ?case by simp
    next
      case 2
      have "dpLatticeTmp ?st1 ?cell = 1"
        unfolding True by (subst 2(4)) simp
      with 2 show ?case by (simp add: True)
    qed
    then show ?thesis
    proof cases
      case rej
      then show ?thesis unfolding unfold keep by simp
    next
      case acc
      then show ?thesis unfolding unfold keep
        by (simp add: check_kernel_tmp_one)
    qed
  next
    case False
    then have "m \<in> set ts" "distinct ts" using Cons.prems by auto
    from Cons.IH [OF this(2,1), of ?st1] show ?thesis
      unfolding unfold by (simp add: check_thread_frame)
  qed
qed

lemma schedule_iff: "schedule n ts \<longleftrightarrow> distinct ts \<and> (\<forall>i < n. i \<in> set ts)"
  by (auto simp: schedule_def list_all_iff)

text \<open>
  The flag of monomer \<open>m\<close> after the launch is the flag its own thread writes, run on a
  memory with the same monomers, committed lattice and neighbours.
\<close>

lemma check_kernel_flag_own:
  assumes "distinct ts" "m \<in> set ts"
  shows "\<exists>st1. dpPolymerSystem st1 = dpPolymerSystem st \<and> dpLattice st1 = dpLattice st \<and>
            dpNeighbors st1 = dpNeighbors st \<and>
            dpPolymerFlags (kernelSimulationScBFMCheckSpecies c np off noff pitch n seed ts st) (off + m)
              = dpPolymerFlags (kernelSimulationScBFMCheckSpecies_thread c np off noff pitch n seed m st1)
                  (off + m)"
  using assms
proof (induction ts arbitrary: st)
  case Nil
  then show ?case by simp
next
  case (Cons j ts)
  let ?K = "kernelSimulationScBFMCheckSpecies c np off noff pitch n seed"
  let ?st1 = "kernelSimulationScBFMCheckSpecies_thread c np off noff pitch n seed j st"
  have unfold: "?K (j # ts) st = ?K ts ?st1"
    by (simp add: kernelSimulationScBFMCheckSpecies_def)
  show ?case
  proof (cases "j = m")
    case True
    then have notin: "\<forall>i \<in> set ts. off + m \<noteq> off + i"
      using Cons.prems by auto
    have "dpPolymerFlags (?K (j # ts) st) (off + m) = dpPolymerFlags ?st1 (off + m)"
      unfolding unfold by (rule check_kernel_flags_other [OF notin])
    then show ?thesis
      using True by (intro exI [of _ st]) simp
  next
    case False
    then have "m \<in> set ts" "distinct ts" using Cons.prems by auto
    from Cons.IH [OF this(2,1), of ?st1] show ?thesis
      unfolding unfold by (simp add: check_thread_frame)
  qed
qed


text \<open>One value of the direction, used in the examples.\<close>

lemma hash_example: "hash (hash 1 XOR 5) mod 6 = 5"
  by (simp add: hash_def)



lemma directionOfFlags_or2: "directionOfFlags (f OR 2) = directionOfFlags f"
proof -
  have "drop_bit 2 (f OR 2) = drop_bit 2 f"
    by (simp add: drop_bit_or)
  then show ?thesis by (simp add: directionOfFlags_def)
qed

lemma flags_or2_and3: "(f :: 8 word) AND 3 \<noteq> 0 \<Longrightarrow> (f OR 2) AND 3 \<noteq> 0"
  by (metis and.left_commute bit.conj_disj_distrib2 or_eq_0_iff and.commute)

subsection \<open>The perform kernel\<close>

lemma perform_thread_frame:
  "dpPolymerSystem (kernelSimulationScBFMPerformSpecies_thread c off n i st) = dpPolymerSystem st"
  "dpLatticeTmp (kernelSimulationScBFMPerformSpecies_thread c off n i st) = dpLatticeTmp st"
  "dpNeighbors (kernelSimulationScBFMPerformSpecies_thread c off n i st) = dpNeighbors st"
  by (simp_all add: kernelSimulationScBFMPerformSpecies_thread_def Let_def)

lemma perform_thread_flags:
  "dpPolymerFlags (kernelSimulationScBFMPerformSpecies_thread c off n i st) j = dpPolymerFlags st j \<or>
   (dpPolymerFlags st j AND 1 \<noteq> 0 \<and>
    dpPolymerFlags (kernelSimulationScBFMPerformSpecies_thread c off n i st) j = dpPolymerFlags st j OR 2)"
  by (simp add: kernelSimulationScBFMPerformSpecies_thread_def Let_def)

lemma perform_kernel_frame:
  "dpPolymerSystem (kernelSimulationScBFMPerformSpecies c off n ts st) = dpPolymerSystem st"
  "dpLatticeTmp (kernelSimulationScBFMPerformSpecies c off n ts st) = dpLatticeTmp st"
  "dpNeighbors (kernelSimulationScBFMPerformSpecies c off n ts st) = dpNeighbors st"
  unfolding kernelSimulationScBFMPerformSpecies_def
  by (induction ts arbitrary: st; simp add: perform_thread_frame)+

lemma or2_idem: "(f :: 8 word) OR 2 OR 2 = f OR 2"
  by (simp add: or.assoc)

lemma perform_kernel_flags:
  "dpPolymerFlags (kernelSimulationScBFMPerformSpecies c off n ts st) j = dpPolymerFlags st j \<or>
   (dpPolymerFlags st j AND 1 \<noteq> 0 \<and>
    dpPolymerFlags (kernelSimulationScBFMPerformSpecies c off n ts st) j = dpPolymerFlags st j OR 2)"
proof (induction ts arbitrary: st)
  case Nil
  then show ?case by (simp add: kernelSimulationScBFMPerformSpecies_def)
next
  case (Cons i ts)
  let ?st1 = "kernelSimulationScBFMPerformSpecies_thread c off n i st"
  have unfold: "kernelSimulationScBFMPerformSpecies c off n (i # ts) st
      = kernelSimulationScBFMPerformSpecies c off n ts ?st1"
    by (simp add: kernelSimulationScBFMPerformSpecies_def)
  have and1: "(dpPolymerFlags st j OR 2) AND 1 = dpPolymerFlags st j AND 1"
    by (simp add: bit.conj_disj_distrib2)
  from Cons.IH [of ?st1] perform_thread_flags [of c off n i st j]
  show ?case unfolding unfold
    by (auto simp: or2_idem and1)
qed

subsection \<open>The scratch-lattice protocol\<close>

lemma scratchMarkedI:
  assumes "\<And>cell. dpLatticeTmp st cell \<noteq> 0 \<Longrightarrow>
        \<exists>i \<in> D. i < n \<and> dpPolymerFlags st (off + i) AND 3 \<noteq> 0 \<and>
           cell = destinationCell c (dpPolymerSystem st (off + i))
                    (directionOfFlags (dpPolymerFlags st (off + i)))"
  shows "scratchMarked c off n D st"
  using assms unfolding scratchMarked_def by blast

lemma scratchMarkedD:
  assumes "scratchMarked c off n D st" "dpLatticeTmp st cell \<noteq> 0"
  obtains i where "i \<in> D" "i < n" "dpPolymerFlags st (off + i) AND 3 \<noteq> 0"
    "cell = destinationCell c (dpPolymerSystem st (off + i))
                    (directionOfFlags (dpPolymerFlags st (off + i)))"
  using assms unfolding scratchMarked_def by blast

lemma check_thread_marked:
  assumes "j \<notin> D" and inv: "scratchMarked c off n D st"
  shows "scratchMarked c off n (insert j D)
           (kernelSimulationScBFMCheckSpecies_thread c np off noff pitch n seed j st)"
    (is "scratchMarked _ _ _ _ ?st'")
proof (cases "j < n")
  case False
  then have "?st' = st"
    by (simp add: kernelSimulationScBFMCheckSpecies_thread_def)
  with inv show ?thesis
    unfolding scratchMarked_def by auto
next
  case True
  let ?d = "proposedDirection seed j"
  let ?f = "ucast (push_bit 2 ?d + 1) :: 8 word"
  let ?dest = "destinationCell c (dpPolymerSystem st (off + j)) ?d"
  have less: "?d < 6" by (rule proposedDirection_less)
  have sys: "dpPolymerSystem ?st' = dpPolymerSystem st"
    by (rule check_thread_frame)
  have other: "\<And>i. i \<in> D \<Longrightarrow> dpPolymerFlags ?st' (off + i) = dpPolymerFlags st (off + i)"
    using assms(1) by (intro check_thread_flags_other) auto
  from check_thread_result [OF True, of c np off noff pitch seed st]
  consider (rej) "dpLatticeTmp ?st' = dpLatticeTmp st"
    | (acc) "dpPolymerFlags ?st' (off + j) = ?f"
            "dpLatticeTmp ?st' = (dpLatticeTmp st)(?dest := 1)"
  proof (elim disjE conjE, goal_cases)
    case 1
    have "dpLatticeTmp ?st' = dpLatticeTmp st" by (subst 1(4)) simp
    then show ?case by (rule 1(1))
  next
    case 2
    have "dpLatticeTmp ?st' = (dpLatticeTmp st)(?dest := 1)" by (subst 2(4)) simp
    with 2(3) show ?case by (rule 2(2))
  qed
  then show ?thesis
  proof cases
    case rej
    show ?thesis
    proof (rule scratchMarkedI)
      fix cell assume "dpLatticeTmp ?st' cell \<noteq> 0"
      then have "dpLatticeTmp st cell \<noteq> 0" by (simp add: rej)
      from scratchMarkedD [OF inv this] obtain i where i: "i \<in> D" "i < n"
        "dpPolymerFlags st (off + i) AND 3 \<noteq> 0"
        "cell = destinationCell c (dpPolymerSystem st (off + i))
                    (directionOfFlags (dpPolymerFlags st (off + i)))" by blast
      then show "\<exists>i \<in> insert j D. i < n \<and> dpPolymerFlags ?st' (off + i) AND 3 \<noteq> 0 \<and>
           cell = destinationCell c (dpPolymerSystem ?st' (off + i))
                    (directionOfFlags (dpPolymerFlags ?st' (off + i)))"
        by (intro bexI [of _ i]) (simp_all add: other sys)
    qed
  next
    case acc
    show ?thesis
    proof (rule scratchMarkedI)
      fix cell assume nz: "dpLatticeTmp ?st' cell \<noteq> 0"
      show "\<exists>i \<in> insert j D. i < n \<and> dpPolymerFlags ?st' (off + i) AND 3 \<noteq> 0 \<and>
           cell = destinationCell c (dpPolymerSystem ?st' (off + i))
                    (directionOfFlags (dpPolymerFlags ?st' (off + i)))"
      proof (cases "cell = ?dest")
        case True
        show ?thesis
          by (intro bexI [of _ j])
             (simp_all add: acc(1) sys True \<open>j < n\<close> flag_roundtrip [OF less] flag_bits [OF less])
      next
        case False
        with nz have "dpLatticeTmp st cell \<noteq> 0" by (simp add: acc(2))
        from scratchMarkedD [OF inv this] obtain i where i: "i \<in> D" "i < n"
          "dpPolymerFlags st (off + i) AND 3 \<noteq> 0"
          "cell = destinationCell c (dpPolymerSystem st (off + i))
                    (directionOfFlags (dpPolymerFlags st (off + i)))" by blast
        then show ?thesis
          by (intro bexI [of _ i]) (simp_all add: other sys)
      qed
    qed
  qed
qed

lemma check_kernel_marked:
  assumes "distinct ts" "set ts \<inter> D = {}" "scratchMarked c off n D st"
  shows "scratchMarked c off n (D \<union> set ts)
           (kernelSimulationScBFMCheckSpecies c np off noff pitch n seed ts st)"
  using assms
proof (induction ts arbitrary: st D)
  case Nil
  then show ?case by (simp add: kernelSimulationScBFMCheckSpecies_def)
next
  case (Cons j ts)
  let ?st1 = "kernelSimulationScBFMCheckSpecies_thread c np off noff pitch n seed j st"
  have unfold: "kernelSimulationScBFMCheckSpecies c np off noff pitch n seed (j # ts) st
      = kernelSimulationScBFMCheckSpecies c np off noff pitch n seed ts ?st1"
    by (simp add: kernelSimulationScBFMCheckSpecies_def)
  have j: "j \<notin> D" using Cons.prems by auto
  have step: "scratchMarked c off n (insert j D) ?st1"
    by (rule check_thread_marked [OF j Cons.prems(3)])
  have "scratchMarked c off n (insert j D \<union> set ts)
           (kernelSimulationScBFMCheckSpecies c np off noff pitch n seed ts ?st1)"
    using Cons.prems by (intro Cons.IH step) auto
  then show ?case unfolding unfold by simp
qed

lemma perform_kernel_marked:
  assumes inv: "scratchMarked c off n D st"
  shows "scratchMarked c off n D (kernelSimulationScBFMPerformSpecies c off n ts st)"
    (is "scratchMarked _ _ _ _ ?st'")
proof (rule scratchMarkedI)
  fix cell assume "dpLatticeTmp ?st' cell \<noteq> 0"
  then have "dpLatticeTmp st cell \<noteq> 0" by (simp add: perform_kernel_frame)
  from scratchMarkedD [OF inv this] obtain i where i: "i \<in> D" "i < n"
    "dpPolymerFlags st (off + i) AND 3 \<noteq> 0"
    "cell = destinationCell c (dpPolymerSystem st (off + i))
                (directionOfFlags (dpPolymerFlags st (off + i)))" by blast
  from perform_kernel_flags [of c off n ts st "off + i"]
  have "dpPolymerFlags ?st' (off + i) AND 3 \<noteq> 0 \<and>
        directionOfFlags (dpPolymerFlags ?st' (off + i)) = directionOfFlags (dpPolymerFlags st (off + i))"
    using i(3) by (auto simp: directionOfFlags_or2 flags_or2_and3)
  with i show "\<exists>i \<in> D. i < n \<and> dpPolymerFlags ?st' (off + i) AND 3 \<noteq> 0 \<and>
           cell = destinationCell c (dpPolymerSystem ?st' (off + i))
                    (directionOfFlags (dpPolymerFlags ?st' (off + i)))"
    by (intro bexI [of _ i]) (simp_all add: perform_kernel_frame)
qed

subsection \<open>The zero kernel\<close>

lemma zero_thread_flags:
  "dpPolymerFlags (kernelSimulationScBFMZeroArraySpecies_thread c off n i st) = dpPolymerFlags st"
  by (simp add: kernelSimulationScBFMZeroArraySpecies_thread_def Let_def)

lemma zero_thread_frame:
  "dpLattice (kernelSimulationScBFMZeroArraySpecies_thread c off n i st) = dpLattice st"
  "dpNeighbors (kernelSimulationScBFMZeroArraySpecies_thread c off n i st) = dpNeighbors st"
  by (simp_all add: kernelSimulationScBFMZeroArraySpecies_thread_def Let_def)

lemma zero_thread_system_other:
  "k \<noteq> off + i \<Longrightarrow>
   dpPolymerSystem (kernelSimulationScBFMZeroArraySpecies_thread c off n i st) k = dpPolymerSystem st k"
  by (simp add: kernelSimulationScBFMZeroArraySpecies_thread_def Let_def)

lemma zero_thread_system_self:
  "i < n \<Longrightarrow>
   dpPolymerSystem (kernelSimulationScBFMZeroArraySpecies_thread c off n i st) (off + i) =
     (if dpPolymerFlags st (off + i) AND 3 = 3
      then movedBy (dpPolymerSystem st (off + i)) (directionOfFlags (dpPolymerFlags st (off + i)))
      else dpPolymerSystem st (off + i))"
  by (simp add: kernelSimulationScBFMZeroArraySpecies_thread_def Let_def movedBy_def
        directionOfFlags_def)

lemma zero_thread_tmp:
  "dpLatticeTmp (kernelSimulationScBFMZeroArraySpecies_thread c off n i st) =
     (if i < n \<and> dpPolymerFlags st (off + i) AND 3 \<noteq> 0
      then (dpLatticeTmp st)(destinationCell c (dpPolymerSystem st (off + i))
                               (directionOfFlags (dpPolymerFlags st (off + i))) := 0)
      else dpLatticeTmp st)"
  by (simp add: kernelSimulationScBFMZeroArraySpecies_thread_def Let_def destinationCell_def
        directionOfFlags_def)

lemma zero_kernel_flags:
  "dpPolymerFlags (kernelSimulationScBFMZeroArraySpecies c off n ts st) = dpPolymerFlags st"
  unfolding kernelSimulationScBFMZeroArraySpecies_def
  by (induction ts arbitrary: st) (simp_all add: zero_thread_flags)

lemma zero_kernel_frame:
  "dpLattice (kernelSimulationScBFMZeroArraySpecies c off n ts st) = dpLattice st"
  "dpNeighbors (kernelSimulationScBFMZeroArraySpecies c off n ts st) = dpNeighbors st"
  unfolding kernelSimulationScBFMZeroArraySpecies_def
  by (induction ts arbitrary: st; simp add: zero_thread_frame)+

lemma zero_kernel_system_other:
  "\<forall>i \<in> set ts. k \<noteq> off + i \<Longrightarrow>
   dpPolymerSystem (kernelSimulationScBFMZeroArraySpecies c off n ts st) k = dpPolymerSystem st k"
  unfolding kernelSimulationScBFMZeroArraySpecies_def
  by (induction ts arbitrary: st) (simp_all add: zero_thread_system_other)

lemma zero_kernel_system_self:
  assumes "distinct ts" "m \<in> set ts" "m < n"
  shows "dpPolymerSystem (kernelSimulationScBFMZeroArraySpecies c off n ts st) (off + m) =
     (if dpPolymerFlags st (off + m) AND 3 = 3
      then movedBy (dpPolymerSystem st (off + m)) (directionOfFlags (dpPolymerFlags st (off + m)))
      else dpPolymerSystem st (off + m))"
  using assms(1,2)
proof (induction ts arbitrary: st)
  case Nil
  then show ?case by simp
next
  case (Cons j ts)
  let ?st1 = "kernelSimulationScBFMZeroArraySpecies_thread c off n j st"
  have unfold: "kernelSimulationScBFMZeroArraySpecies c off n (j # ts) st
      = kernelSimulationScBFMZeroArraySpecies c off n ts ?st1"
    by (simp add: kernelSimulationScBFMZeroArraySpecies_def)
  show ?case
  proof (cases "j = m")
    case True
    then have notin: "\<forall>i \<in> set ts. off + m \<noteq> off + i"
      using Cons.prems by auto
    show ?thesis
      unfolding unfold
      by (simp add: zero_kernel_system_other [OF notin] True zero_thread_system_self [OF assms(3)])
  next
    case False
    then have "m \<in> set ts" "distinct ts" using Cons.prems by auto
    from Cons.IH [OF this(2,1), of ?st1] show ?thesis
      unfolding unfold using False
      by (simp add: zero_thread_flags zero_thread_system_other)
  qed
qed

lemma zero_thread_marked:
  assumes "j \<notin> R" and inv: "scratchMarked c off n (insert j R) st"
  shows "scratchMarked c off n R (kernelSimulationScBFMZeroArraySpecies_thread c off n j st)"
    (is "scratchMarked _ _ _ _ ?st'")
proof (rule scratchMarkedI)
  fix cell assume nz: "dpLatticeTmp ?st' cell \<noteq> 0"
  then have nz0: "dpLatticeTmp st cell \<noteq> 0"
    by (simp add: zero_thread_tmp split: if_splits)
  from scratchMarkedD [OF inv nz0] obtain i where i: "i \<in> insert j R" "i < n"
    "dpPolymerFlags st (off + i) AND 3 \<noteq> 0"
    "cell = destinationCell c (dpPolymerSystem st (off + i))
                (directionOfFlags (dpPolymerFlags st (off + i)))" by blast
  have "i \<noteq> j"
  proof
    assume "i = j"
    with i nz show False by (simp add: zero_thread_tmp)
  qed
  with i(1) have "i \<in> R" by simp
  moreover have "dpPolymerSystem ?st' (off + i) = dpPolymerSystem st (off + i)"
    using \<open>i \<noteq> j\<close> by (simp add: zero_thread_system_other)
  ultimately show "\<exists>i \<in> R. i < n \<and> dpPolymerFlags ?st' (off + i) AND 3 \<noteq> 0 \<and>
           cell = destinationCell c (dpPolymerSystem ?st' (off + i))
                    (directionOfFlags (dpPolymerFlags ?st' (off + i)))"
    using i by (intro bexI [of _ i]) (simp_all add: zero_thread_flags)
qed

lemma zero_kernel_marked:
  assumes "distinct ts" "scratchMarked c off n (set ts) st"
  shows "scratchMarked c off n {} (kernelSimulationScBFMZeroArraySpecies c off n ts st)"
  using assms
proof (induction ts arbitrary: st)
  case Nil
  then show ?case by (simp add: kernelSimulationScBFMZeroArraySpecies_def)
next
  case (Cons j ts)
  let ?st1 = "kernelSimulationScBFMZeroArraySpecies_thread c off n j st"
  have unfold: "kernelSimulationScBFMZeroArraySpecies c off n (j # ts) st
      = kernelSimulationScBFMZeroArraySpecies c off n ts ?st1"
    by (simp add: kernelSimulationScBFMZeroArraySpecies_def)
  have "scratchMarked c off n (set ts) ?st1"
    using Cons.prems by (intro zero_thread_marked) simp_all
  then show ?case unfolding unfold
    using Cons.prems by (intro Cons.IH) simp_all
qed

lemma scratchMarked_mono:
  "scratchMarked c off n D st \<Longrightarrow> {i \<in> D. i < n} \<subseteq> D' \<Longrightarrow> scratchMarked c off n D' st"
  unfolding scratchMarked_def by blast

lemma scratchMarked_empty: "scratchMarked c off n {} st \<longleftrightarrow> (\<forall>cell. dpLatticeTmp st cell = 0)"
  unfolding scratchMarked_def by auto

lemma check_kernel_tmp_values:
  "dpLatticeTmp (kernelSimulationScBFMCheckSpecies c np off noff pitch n seed ts st) cell
     = dpLatticeTmp st cell \<or>
   dpLatticeTmp (kernelSimulationScBFMCheckSpecies c np off noff pitch n seed ts st) cell = 1"
proof (induction ts arbitrary: st)
  case Nil
  then show ?case by (simp add: kernelSimulationScBFMCheckSpecies_def)
next
  case (Cons j ts)
  let ?st1 = "kernelSimulationScBFMCheckSpecies_thread c np off noff pitch n seed j st"
  have unfold: "kernelSimulationScBFMCheckSpecies c np off noff pitch n seed (j # ts) st
      = kernelSimulationScBFMCheckSpecies c np off noff pitch n seed ts ?st1"
    by (simp add: kernelSimulationScBFMCheckSpecies_def)
  have "dpLatticeTmp ?st1 cell = dpLatticeTmp st cell \<or> dpLatticeTmp ?st1 cell = 1"
    by (simp add: kernelSimulationScBFMCheckSpecies_thread_def Let_def)
  with Cons.IH [of ?st1] show ?case
    unfolding unfold by (auto simp: check_kernel_tmp_one)
qed

text \<open>
  Claim C2. A substep that starts with an all-zero scratch lattice ends with an all-zero
  scratch lattice, in every order of the threads of the three launches. After the check
  kernel a scratch cell is non-zero only if it holds 1 and is the destination of a
  monomer of the species whose flag has the accepted bit; the perform kernel leaves the
  scratch lattice as it is, and the zero kernel clears every such cell.
\<close>

theorem substep_scratch_zero:
  assumes "schedule nMonomers tsA" "schedule nMonomers tsB" "schedule nMonomers tsC"
    and zero: "\<forall>cell. dpLatticeTmp st cell = 0"
  shows "let stA = kernelSimulationScBFMCheckSpecies c nonperiodic iOffset iNeighborsOffset
                     rNeighborsPitchElements nMonomers rSeed tsA st;
             stB = kernelSimulationScBFMPerformSpecies c iOffset nMonomers tsB stA;
             stC = kernelSimulationScBFMZeroArraySpecies c iOffset nMonomers tsC stB
         in stC = substep c nonperiodic iOffset iNeighborsOffset rNeighborsPitchElements
                    nMonomers rSeed tsA tsB tsC st \<and>
            (\<forall>cell. dpLatticeTmp stC cell = 0) \<and>
            (\<forall>cell. dpLatticeTmp stA cell \<noteq> 0 \<longrightarrow>
               dpLatticeTmp stA cell = 1 \<and>
               (\<exists>m < nMonomers. dpPolymerFlags stA (iOffset + m) AND 1 = 1 \<and>
                  cell = destinationCell c (dpPolymerSystem st (iOffset + m))
                           (directionOfFlags (dpPolymerFlags stA (iOffset + m))))) \<and>
            dpLatticeTmp stB = dpLatticeTmp stA"
proof -
  define stA where "stA = kernelSimulationScBFMCheckSpecies c nonperiodic iOffset iNeighborsOffset
                     rNeighborsPitchElements nMonomers rSeed tsA st"
  define stB where "stB = kernelSimulationScBFMPerformSpecies c iOffset nMonomers tsB stA"
  define stC where "stC = kernelSimulationScBFMZeroArraySpecies c iOffset nMonomers tsC stB"
  have dA: "distinct tsA" and dC: "distinct tsC" and cC: "\<forall>i < nMonomers. i \<in> set tsC"
    using assms by (simp_all add: schedule_iff)
  have "scratchMarked c iOffset nMonomers {} st"
    using zero by (simp add: scratchMarked_empty)
  then have "scratchMarked c iOffset nMonomers ({} \<union> set tsA) stA"
    unfolding stA_def using dA by (intro check_kernel_marked) simp_all
  then have mA: "scratchMarked c iOffset nMonomers (set tsA) stA" by simp
  then have "scratchMarked c iOffset nMonomers (set tsA) stB"
    unfolding stB_def by (rule perform_kernel_marked)
  then have "scratchMarked c iOffset nMonomers (set tsC) stB"
    by (rule scratchMarked_mono) (use cC in auto)
  then have "scratchMarked c iOffset nMonomers {} stC"
    unfolding stC_def by (rule zero_kernel_marked [OF dC])
  then have 1: "\<forall>cell. dpLatticeTmp stC cell = 0"
    by (simp add: scratchMarked_empty)
  have 2: "\<forall>cell. dpLatticeTmp stA cell \<noteq> 0 \<longrightarrow>
               dpLatticeTmp stA cell = 1 \<and>
               (\<exists>m < nMonomers. dpPolymerFlags stA (iOffset + m) AND 1 = 1 \<and>
                  cell = destinationCell c (dpPolymerSystem st (iOffset + m))
                           (directionOfFlags (dpPolymerFlags stA (iOffset + m))))"
  proof (intro allI impI conjI)
    fix cell assume nz: "dpLatticeTmp stA cell \<noteq> 0"
    from check_kernel_tmp_values [of c nonperiodic iOffset iNeighborsOffset
        rNeighborsPitchElements nMonomers rSeed tsA st cell] nz zero
    show "dpLatticeTmp stA cell = 1"
      unfolding stA_def by auto
    from scratchMarkedD [OF mA nz] obtain i where i: "i \<in> set tsA" "i < nMonomers"
      "dpPolymerFlags stA (iOffset + i) AND 3 \<noteq> 0"
      "cell = destinationCell c (dpPolymerSystem stA (iOffset + i))
                  (directionOfFlags (dpPolymerFlags stA (iOffset + i)))" by blast
    have sys: "dpPolymerSystem stA = dpPolymerSystem st"
      unfolding stA_def by (rule check_kernel_frame)
    from check_kernel_flag [OF dA i(1,2), of c nonperiodic iOffset iNeighborsOffset
        rNeighborsPitchElements rSeed st] i(3)
    have "dpPolymerFlags stA (iOffset + i) AND 1 = 1"
      unfolding stA_def [symmetric]
      by (auto simp: flag_bits [OF proposedDirection_less])
    with i(2,4) show "\<exists>m < nMonomers. dpPolymerFlags stA (iOffset + m) AND 1 = 1 \<and>
                  cell = destinationCell c (dpPolymerSystem st (iOffset + m))
                           (directionOfFlags (dpPolymerFlags stA (iOffset + m)))"
      unfolding sys by blast
  qed
  have 3: "dpLatticeTmp stB = dpLatticeTmp stA"
    unfolding stB_def by (rule perform_kernel_frame)
  have 0: "stC = substep c nonperiodic iOffset iNeighborsOffset rNeighborsPitchElements
                    nMonomers rSeed tsA tsB tsC st"
    by (simp add: substep_def stA_def stB_def stC_def)
  from 0 1 2 3 show ?thesis
    unfolding Let_def stA_def stB_def stC_def by blast
qed

theorem substep_scratch_zero_witness:
  "schedule 2 [1, 0] \<and> schedule 2 [0, 1] \<and> schedule 2 [0, 1, 2] \<and>
   (\<forall>cell. dpLatticeTmp exampleMemory cell = 0) \<and>
   (\<forall>cell. dpLatticeTmp (substep exampleBox False 0 0 32 2 5 [1, 0] [0, 1] [0, 1, 2] exampleMemory)
              cell = 0)"
proof -
  have h1: "schedule 2 [1, 0]" by code_simp
  have h2: "schedule 2 [0, 1]" by code_simp
  have h3: "schedule 2 [0, 1, 2]" by code_simp
  have h4: "\<forall>cell. dpLatticeTmp exampleMemory cell = 0"
    by (simp add: exampleMemory_def)
  from substep_scratch_zero [OF h1 h2 h3 h4, of exampleBox False 0 0 32 5] h1 h2 h3 h4
  show ?thesis
    unfolding Let_def by metis
qed

subsection \<open>The scratch lattice over a whole run\<close>

text \<open>
  The launches of \<^verbatim>\<open>runSimulationOnGPU\<close> start \<^verbatim>\<open>nBlocks * nThreads\<close> threads, which cover
  the monomers of the species; so every substep of a run keeps the scratch lattice
  all-zero, and the test of the "Check" level after the loop does not fail.
\<close>

lemma launch_schedule: "schedule n [0..<ceilDiv n 256 * 256]"
proof -
  have "(n + 255) mod 256 \<le> 255"
    by simp
  moreover have "(n + 255) div 256 * 256 + (n + 255) mod 256 = n + 255"
    by simp
  ultimately have "n \<le> (n + 255) div 256 * 256"
    by linarith
  then have le: "n \<le> ceilDiv n 256 * 256"
    by (simp add: ceilDiv_def)
  have "i \<in> set [0..<ceilDiv n 256 * 256]" if "i < n" for i
    using that le by (simp only: set_upt atLeastLessThan_iff) simp
  then show ?thesis
    unfolding schedule_iff by (simp only: distinct_upt) blast
qed

lemma substep_keeps_scratch_zero:
  assumes "schedule nMonomers tsA" "schedule nMonomers tsC"
    and zero: "\<forall>cell. dpLatticeTmp st cell = 0"
  shows "dpLatticeTmp (substep c nonperiodic iOffset iNeighborsOffset rNeighborsPitchElements
                    nMonomers rSeed tsA tsB tsC st) cell = 0"
proof -
  define stA where "stA = kernelSimulationScBFMCheckSpecies c nonperiodic iOffset iNeighborsOffset
                     rNeighborsPitchElements nMonomers rSeed tsA st"
  define stB where "stB = kernelSimulationScBFMPerformSpecies c iOffset nMonomers tsB stA"
  define stC where "stC = kernelSimulationScBFMZeroArraySpecies c iOffset nMonomers tsC stB"
  have dA: "distinct tsA" and dC: "distinct tsC" and cC: "\<forall>i < nMonomers. i \<in> set tsC"
    using assms by (simp_all add: schedule_iff)
  have "scratchMarked c iOffset nMonomers {} st"
    using zero by (simp add: scratchMarked_empty)
  then have "scratchMarked c iOffset nMonomers ({} \<union> set tsA) stA"
    unfolding stA_def using dA by (intro check_kernel_marked) simp_all
  then have mA: "scratchMarked c iOffset nMonomers (set tsA) stA" by simp
  then have "scratchMarked c iOffset nMonomers (set tsA) stB"
    unfolding stB_def by (rule perform_kernel_marked)
  then have "scratchMarked c iOffset nMonomers (set tsC) stB"
    by (rule scratchMarked_mono) (use cC in auto)
  then have "scratchMarked c iOffset nMonomers {} stC"
    unfolding stC_def by (rule zero_kernel_marked [OF dC])
  then have "dpLatticeTmp stC cell = 0"
    by (simp add: scratchMarked_empty)
  then show ?thesis
    by (simp add: substep_def stA_def stB_def stC_def)
qed

lemma mcSubStep_gpu:
  "\<exists>c np off noff pitch n seed.
     gpu (mcSubStep e) = substep c np off noff pitch n seed
       [0..<ceilDiv n 256 * 256] [0..<ceilDiv n 256 * 256] [0..<ceilDiv n 256 * 256] (gpu e)"
  unfolding mcSubStep_def r250_rand32_def Let_def prod.case
  by (intro exI) simp

lemma mcSubStep_scratch_zero:
  assumes "\<forall>cell. dpLatticeTmp (gpu e) cell = 0"
  shows "\<forall>cell. dpLatticeTmp (gpu (mcSubStep e)) cell = 0"
proof -
  obtain c np off noff pitch n seed where
    step: "gpu (mcSubStep e) = substep c np off noff pitch n seed
             [0..<ceilDiv n 256 * 256] [0..<ceilDiv n 256 * 256] [0..<ceilDiv n 256 * 256] (gpu e)"
    using mcSubStep_gpu by blast
  from substep_keeps_scratch_zero [OF launch_schedule launch_schedule assms]
  show ?thesis
    unfolding step by simp
qed

lemma mcSubSteps_scratch_zero:
  "\<forall>cell. dpLatticeTmp (gpu e) cell = 0 \<Longrightarrow>
   \<forall>cell. dpLatticeTmp (gpu (mcSubSteps k e)) cell = 0"
proof (induction k arbitrary: e)
  case 0
  then show ?case by simp
next
  case (Suc k)
  from Suc.IH [OF mcSubStep_scratch_zero [OF Suc.prems]] show ?case
    by simp
qed

lemma mcSteps_scratch_zero:
  "\<forall>cell. dpLatticeTmp (gpu e) cell = 0 \<Longrightarrow>
   \<forall>cell. dpLatticeTmp (gpu (mcSteps k e)) cell = 0"
proof (induction k arbitrary: e)
  case 0
  then show ?case by simp
next
  case (Suc k)
  from Suc.IH [OF mcSubSteps_scratch_zero [OF Suc.prems]] show ?case
    by simp
qed

lemma fold_keep: "fold (\<lambda>i n. n) xs (a :: nat) = a"
  by (induction xs) simp_all

lemma checkSystem_not_scratch:
  "fst (checkSystem e) \<noteq> Some (runtime_error (ScratchOccupied n))"
  by (simp add: checkSystem_def Let_def)

lemma runSimulationOnGPU_scratch_check:
  assumes "\<forall>cell. dpLatticeTmp (gpu e) cell = 0"
  shows "fst (runSimulationOnGPU nMonteCarloSteps e) \<noteq> Some (runtime_error (ScratchOccupied n))"
proof -
  have "dpLatticeTmp (gpu (mcSteps (nat nMonteCarloSteps) e)) cell = 0" for cell
    using mcSteps_scratch_zero [OF assms] by simp
  then show ?thesis
    by (simp add: runSimulationOnGPU_def Let_def checkSystem_not_scratch fold_keep)
qed

subsection \<open>Positions and the box boundary\<close>

lemma sint_nonneg_uint:
  fixes w :: "32 word"
  assumes "0 \<le> sint w"
  shows "uint w = sint w"
proof -
  have "sint w < 2 ^ 32"
    using sint_lt [of w] by simp
  with assms have "take_bit 32 (sint w) = sint w"
    by (simp add: take_bit_int_eq_self)
  then show ?thesis
    using uint_sint [of w] by simp
qed

text \<open>The boundary test of the check thread in terms of the signed destination.\<close>

lemma inside_iff:
  fixes v m1 :: "32 word"
  shows "word_sle 0 v \<and> v < m1 \<longleftrightarrow> 0 \<le> sint v \<and> sint v < uint m1"
  by (auto simp: word_sle_eq word_less_alt sint_nonneg_uint)

lemma table_values:
  "DXTable_d 0 = -1" "DXTable_d 1 = 1" "DXTable_d 2 = 0" "DXTable_d 3 = 0" "DXTable_d 4 = 0" "DXTable_d 5 = 0"
  "DYTable_d 0 = 0" "DYTable_d 1 = 0" "DYTable_d 2 = -1" "DYTable_d 3 = 1" "DYTable_d 4 = 0" "DYTable_d 5 = 0"
  "DZTable_d 0 = 0" "DZTable_d 1 = 0" "DZTable_d 2 = 0" "DZTable_d 3 = 0" "DZTable_d 4 = -1" "DZTable_d 5 = 1"
  by (simp_all add: DXTable_d_def DYTable_d_def DZTable_d_def tableAt_def)

lemma movedBy_neq:
  assumes "d < 6"
  shows "movedBy data d \<noteq> data"
proof
  assume eq: "movedBy data d = data"
  then have "x4 (movedBy data d) = x4 data" "y4 (movedBy data d) = y4 data"
    "z4 (movedBy data d) = z4 data"
    by simp_all
  then show False
    using direction_cases [OF assms]
    by (auto simp: movedBy_def table_values)
qed

text \<open>
  Claim C3. For every monomer \<open>m\<close> the zero kernel processes, in every order of its
  threads: if \<open>flags[m] & 3 = 3\<close> the stored position becomes the old one plus the
  direction vector decoded from the flag, otherwise the stored record is unchanged; for a
  direction id below 6 the moved position differs from the old one, so the position
  changes exactly when both bits are set.
\<close>

theorem zero_kernel_position:
  assumes "schedule nMonomers ts" and "m < nMonomers"
  shows "let properties = dpPolymerFlags st (iOffset + m);
             direction = ucast (drop_bit 2 properties) AND 7;
             data = dpPolymerSystem st (iOffset + m);
             moved = data\<lparr>x4 := x4 data + DXTable_d direction,
                          y4 := y4 data + DYTable_d direction,
                          z4 := z4 data + DZTable_d direction\<rparr>;
             data' = dpPolymerSystem
                       (kernelSimulationScBFMZeroArraySpecies c iOffset nMonomers ts st)
                       (iOffset + m)
         in (properties AND 3 = 3 \<longrightarrow> data' = moved) \<and>
            (properties AND 3 \<noteq> 3 \<longrightarrow> data' = data) \<and>
            (direction < 6 \<longrightarrow> moved \<noteq> data)"
proof -
  have d: "distinct ts" and m: "m \<in> set ts"
    using assms by (simp_all add: schedule_iff)
  from zero_kernel_system_self [OF d m assms(2), of c iOffset st]
    movedBy_neq [of "directionOfFlags (dpPolymerFlags st (iOffset + m))"
                    "dpPolymerSystem st (iOffset + m)"]
  show ?thesis
    unfolding Let_def movedBy_def directionOfFlags_def by auto
qed

lemma check_thread_boundary:
  assumes "i < n"
    and "let data = dpPolymerSystem st (off + i);
             d = proposedDirection seed i;
             x1 = sint (x4 data + DXTable_d d);
             y1 = sint (y4 data + DYTable_d d);
             z1 = sint (z4 data + DZTable_d d)
         in x1 < 0 \<or> uint (dcBoxXM1 c) \<le> x1 \<or>
            y1 < 0 \<or> uint (dcBoxYM1 c) \<le> y1 \<or>
            z1 < 0 \<or> uint (dcBoxZM1 c) \<le> z1"
  shows "dpPolymerFlags (kernelSimulationScBFMCheckSpecies_thread c True off noff pitch n seed i st)
           (off + i) = 0"
proof -
  let ?data = "dpPolymerSystem st (off + i)"
  let ?d = "proposedDirection seed i"
  have "\<not> (word_sle 0 (x4 ?data + DXTable_d ?d) \<and> x4 ?data + DXTable_d ?d < dcBoxXM1 c \<and>
           word_sle 0 (y4 ?data + DYTable_d ?d) \<and> y4 ?data + DYTable_d ?d < dcBoxYM1 c \<and>
           word_sle 0 (z4 ?data + DZTable_d ?d) \<and> z4 ?data + DZTable_d ?d < dcBoxZM1 c)"
    using assms(2) inside_iff [of "x4 ?data + DXTable_d ?d" "dcBoxXM1 c"]
      inside_iff [of "y4 ?data + DYTable_d ?d" "dcBoxYM1 c"]
      inside_iff [of "z4 ?data + DZTable_d ?d" "dcBoxZM1 c"]
    unfolding Let_def by linarith
  then show ?thesis
    using assms(1)
    by (simp add: kernelSimulationScBFMCheckSpecies_thread_def Let_def proposedDirection_def
        add.commute)
qed

text \<open>
  Claim C5. In non-periodic mode, if some coordinate of the proposed destination of
  monomer \<open>m\<close> (read as a signed integer) is negative or at least \<open>B - 1\<close>, the value
  of \<^verbatim>\<open>dcBoxXM1\<close>, \<^verbatim>\<open>dcBoxYM1\<close> or \<^verbatim>\<open>dcBoxZM1\<close>, then the check kernel leaves the flag
  of \<open>m\<close> at 0, the flag is still 0 after the substep, and the stored record of \<open>m\<close>
  is unchanged by the substep.
\<close>

theorem substep_nonperiodic_boundary:
  assumes "schedule nMonomers tsA" "schedule nMonomers tsB" "schedule nMonomers tsC"
    and "m < nMonomers"
    and outside:
      "let data = dpPolymerSystem st (iOffset + m);
           d = hash (hash (of_nat m) XOR rSeed) mod 6;
           x1 = sint (x4 data + DXTable_d d);
           y1 = sint (y4 data + DYTable_d d);
           z1 = sint (z4 data + DZTable_d d)
       in x1 < 0 \<or> uint (dcBoxXM1 c) \<le> x1 \<or>
          y1 < 0 \<or> uint (dcBoxYM1 c) \<le> y1 \<or>
          z1 < 0 \<or> uint (dcBoxZM1 c) \<le> z1"
  shows "dpPolymerFlags
           (kernelSimulationScBFMCheckSpecies c True iOffset iNeighborsOffset
              rNeighborsPitchElements nMonomers rSeed tsA st) (iOffset + m) = 0 \<and>
         dpPolymerFlags
           (substep c True iOffset iNeighborsOffset rNeighborsPitchElements nMonomers rSeed
              tsA tsB tsC st) (iOffset + m) = 0 \<and>
         dpPolymerSystem
           (substep c True iOffset iNeighborsOffset rNeighborsPitchElements nMonomers rSeed
              tsA tsB tsC st) (iOffset + m) = dpPolymerSystem st (iOffset + m)"
proof -
  define stA where "stA = kernelSimulationScBFMCheckSpecies c True iOffset iNeighborsOffset
                     rNeighborsPitchElements nMonomers rSeed tsA st"
  define stB where "stB = kernelSimulationScBFMPerformSpecies c iOffset nMonomers tsB stA"
  define stC where "stC = kernelSimulationScBFMZeroArraySpecies c iOffset nMonomers tsC stB"
  have sub: "substep c True iOffset iNeighborsOffset rNeighborsPitchElements nMonomers rSeed
              tsA tsB tsC st = stC"
    by (simp add: substep_def stA_def stB_def stC_def)
  have dA: "distinct tsA" and mA: "m \<in> set tsA" and dC: "distinct tsC" and mC: "m \<in> set tsC"
    using assms by (simp_all add: schedule_iff)
  from check_kernel_flag_own [OF dA mA, of st c True iOffset iNeighborsOffset
      rNeighborsPitchElements nMonomers rSeed]
  obtain st1 where st1: "dpPolymerSystem st1 = dpPolymerSystem st"
    "dpPolymerFlags stA (iOffset + m)
       = dpPolymerFlags (kernelSimulationScBFMCheckSpecies_thread c True iOffset iNeighborsOffset
           rNeighborsPitchElements nMonomers rSeed m st1) (iOffset + m)"
    unfolding stA_def by blast
  have fA: "dpPolymerFlags stA (iOffset + m) = 0"
    unfolding st1(2)
    by (rule check_thread_boundary [OF assms(4)])
       (use outside in \<open>simp add: st1(1) proposedDirection_def\<close>)
  have fB: "dpPolymerFlags stB (iOffset + m) = 0"
    using perform_kernel_flags [of c iOffset nMonomers tsB stA "iOffset + m"] fA
    unfolding stB_def by auto
  have fC: "dpPolymerFlags stC (iOffset + m) = 0"
    unfolding stC_def by (simp add: zero_kernel_flags fB)
  have "dpPolymerSystem stC (iOffset + m) = dpPolymerSystem stB (iOffset + m)"
    unfolding stC_def
    by (simp add: zero_kernel_system_self [OF dC mC assms(4)] fB)
  also have "\<dots> = dpPolymerSystem st (iOffset + m)"
    unfolding stB_def stA_def by (simp add: perform_kernel_frame check_kernel_frame)
  finally show ?thesis
    unfolding sub using fA fC by (simp add: stA_def)
qed

theorem zero_kernel_position_witness:
  "schedule 2 [1, 0] \<and> (1 :: nat) < 2 \<and>
   dpPolymerSystem (kernelSimulationScBFMZeroArraySpecies exampleBox 0 2 [1, 0]
        (exampleMemory\<lparr>dpPolymerFlags := (\<lambda>_. 15)\<rparr>)) 1
     = \<lparr>x4 = 0, y4 = 1, z4 = 0, w4 = 0\<rparr>"
proof -
  have h1: "schedule 2 [1, 0]" by code_simp
  have h2: "(1 :: nat) < 2" by simp
  from zero_kernel_position [OF h1 h2, of "exampleMemory\<lparr>dpPolymerFlags := (\<lambda>_. 15)\<rparr>" 0 exampleBox]
  have "dpPolymerSystem (kernelSimulationScBFMZeroArraySpecies exampleBox 0 2 [1, 0]
        (exampleMemory\<lparr>dpPolymerFlags := (\<lambda>_. 15)\<rparr>)) 1
     = \<lparr>x4 = 0, y4 = 1, z4 = 0, w4 = 0\<rparr>"
    by (simp add: Let_def exampleMemory_def table_values)
  with h1 h2 show ?thesis by blast
qed

theorem substep_nonperiodic_boundary_witness:
  "schedule 2 [1, 0] \<and> schedule 2 [0, 1] \<and> schedule 2 [0, 1, 2] \<and> (1 :: nat) < 2 \<and>
   dpPolymerSystem (substep exampleBox True 0 0 32 2 5 [1, 0] [0, 1] [0, 1, 2] exampleEdgeMemory) 1
     = \<lparr>x4 = 2, y4 = 2, z4 = 2, w4 = 0\<rparr> \<and>
   dpPolymerFlags (substep exampleBox True 0 0 32 2 5 [1, 0] [0, 1] [0, 1, 2] exampleEdgeMemory) 1 = 0"
proof -
  have h1: "schedule 2 [1, 0]" by code_simp
  have h2: "schedule 2 [0, 1]" by code_simp
  have h3: "schedule 2 [0, 1, 2]" by code_simp
  have h4: "(1 :: nat) < 2" by simp
  have h5: "let data = dpPolymerSystem exampleEdgeMemory (0 + 1);
           d = hash (hash (of_nat (1 :: nat)) XOR 5) mod 6;
           x1 = sint (x4 data + DXTable_d d);
           y1 = sint (y4 data + DYTable_d d);
           z1 = sint (z4 data + DZTable_d d)
       in x1 < 0 \<or> uint (dcBoxXM1 exampleBox) \<le> x1 \<or>
          y1 < 0 \<or> uint (dcBoxYM1 exampleBox) \<le> y1 \<or>
          z1 < 0 \<or> uint (dcBoxZM1 exampleBox) \<le> z1"
    by (simp add: Let_def hash_example exampleEdgeMemory_def exampleMemory_def exampleBox_def table_values)
  from substep_nonperiodic_boundary [OF h1 h2 h3 h4 h5, of 0 32]
  have "dpPolymerSystem (substep exampleBox True 0 0 32 2 5 [1, 0] [0, 1] [0, 1, 2] exampleEdgeMemory) 1
     = \<lparr>x4 = 2, y4 = 2, z4 = 2, w4 = 0\<rparr> \<and>
   dpPolymerFlags (substep exampleBox True 0 0 32 2 5 [1, 0] [0, 1] [0, 1, 2] exampleEdgeMemory) 1 = 0"
    by (simp add: exampleEdgeMemory_def exampleMemory_def)
  with h1 h2 h3 h4 show ?thesis by blast
qed

subsection \<open>The 3 x 3 face test\<close>

lemma axis_of_direction:
  "signed_drop_bit 1 (0 :: 32 word) = 0" "signed_drop_bit 1 (1 :: 32 word) = 0"
  "signed_drop_bit 1 (2 :: 32 word) = 1" "signed_drop_bit 1 (3 :: 32 word) = 1"
  "signed_drop_bit 1 (4 :: 32 word) = 2" "signed_drop_bit 1 (5 :: 32 word) = 2"
  by code_simp+

lemma checkFront_cells_each:
  "checkFront c tex x y z 0 = list_ex (\<lambda>cell. tex cell \<noteq> 0) (frontPlaneCells c x y z 0)"
  "checkFront c tex x y z 1 = list_ex (\<lambda>cell. tex cell \<noteq> 0) (frontPlaneCells c x y z 1)"
  "checkFront c tex x y z 2 = list_ex (\<lambda>cell. tex cell \<noteq> 0) (frontPlaneCells c x y z 2)"
  "checkFront c tex x y z 3 = list_ex (\<lambda>cell. tex cell \<noteq> 0) (frontPlaneCells c x y z 3)"
  "checkFront c tex x y z 4 = list_ex (\<lambda>cell. tex cell \<noteq> 0) (frontPlaneCells c x y z 4)"
  "checkFront c tex x y z 5 = list_ex (\<lambda>cell. tex cell \<noteq> 0) (frontPlaneCells c x y z 5)"
  by ((simp add: checkFront_def frontPlaneCells_def Let_def table_values axis_of_direction
        linearizeBoxVectorIndex_def or_eq_0_iff, blast?)[1])+

lemma checkFront_cells:
  assumes "d < 6"
  shows "checkFront c tex x y z d = list_ex (\<lambda>cell. tex cell \<noteq> 0) (frontPlaneCells c x y z d)"
  using direction_cases [OF assms] checkFront_cells_each [of c tex x y z] by blast

lemma length_frontPlaneCells: "length (frontPlaneCells c x y z d) = 9"
  by (simp add: frontPlaneCells_def Let_def)

subsection \<open>The linear index of a valid box\<close>

lemma take_bit_2_diff:
  fixes a b :: "32 word"
  assumes "take_bit 2 a = take_bit 2 b"
  shows "take_bit 2 (a - b) = 0"
proof -
  have a: "a = push_bit 2 (drop_bit 2 a) + take_bit 2 a"
    by (simp add: bits_ident)
  have b: "b = push_bit 2 (drop_bit 2 b) + take_bit 2 b"
    by (simp add: bits_ident)
  have "a - b = push_bit 2 (drop_bit 2 a) - push_bit 2 (drop_bit 2 b)"
    by (subst a, subst b) (simp add: assms)
  also have "\<dots> = push_bit 2 (drop_bit 2 a - drop_bit 2 b)"
    by (simp add: push_bit_eq_mult algebra_simps)
  finally show ?thesis
    by (simp add: take_bit_push_bit)
qed

lemma linearize_valid:
  assumes "validBox c kx ky kz"
  shows "linearizeBoxVectorIndex c x y z =
           take_bit kx x OR push_bit kx (take_bit ky y) OR push_bit (kx + ky) (take_bit kz z)"
proof -
  from assms have k: "kx + ky \<le> 30" "2 \<le> kx" by (simp_all add: validBox_def)
  have ux: "unat (of_nat kx :: 32 word) = kx"
    by (rule of_nat_inverse [OF refl]) (use k in simp)
  have "unat (of_nat (kx + ky) :: 32 word) = kx + ky"
    by (rule of_nat_inverse [OF refl]) (use k in simp)
  then have uxy: "unat (of_nat kx + of_nat ky :: 32 word) = kx + ky"
    by simp
  have lin: "linearizeBoxVectorIndex c x y z =
      take_bit kx x + push_bit kx (take_bit ky y) + push_bit (kx + ky) (take_bit kz z)"
    using assms ux uxy
    by (simp add: linearizeBoxVectorIndex_def validBox_def take_bit_eq_mask mask_eq_exp_minus_1)
  have 1: "take_bit kx x + push_bit kx (take_bit ky y) = take_bit kx x OR push_bit kx (take_bit ky y)"
    by (rule disjunctive_add_eq_or) (auto simp: bit_eq_iff bit_simps)
  have 2: "(take_bit kx x OR push_bit kx (take_bit ky y)) + push_bit (kx + ky) (take_bit kz z)
         = (take_bit kx x OR push_bit kx (take_bit ky y)) OR push_bit (kx + ky) (take_bit kz z)"
    by (rule disjunctive_add_eq_or) (auto simp: bit_eq_iff bit_simps)
  show ?thesis
    unfolding lin 1 2 by (simp add: or.assoc)
qed

lemma linearize_x:
  assumes "validBox c kx ky kz"
  shows "take_bit 2 (linearizeBoxVectorIndex c x y z) = take_bit 2 x"
proof -
  from assms have k: "2 \<le> kx" by (simp add: validBox_def)
  show ?thesis
    unfolding linearize_valid [OF assms]
    using k by (auto simp: bit_eq_iff bit_simps)
qed

lemma linearize_y:
  assumes "validBox c kx ky kz"
  shows "take_bit 2 (drop_bit kx (linearizeBoxVectorIndex c x y z)) = take_bit 2 y"
proof -
  from assms have k: "2 \<le> ky" "kx + ky \<le> 30" by (simp_all add: validBox_def)
  show ?thesis
    unfolding linearize_valid [OF assms]
    using k by (auto simp: bit_eq_iff bit_simps)
qed

lemma linearize_z:
  assumes "validBox c kx ky kz"
  shows "take_bit 2 (drop_bit (kx + ky) (linearizeBoxVectorIndex c x y z)) = take_bit 2 z"
proof -
  from assms have k: "2 \<le> kz" "kx + ky \<le> 30" by (simp_all add: validBox_def)
  show ?thesis
    unfolding linearize_valid [OF assms]
    using k by (auto simp: bit_eq_iff bit_simps)
qed

lemma linearize_neq_x:
  assumes "validBox c kx ky kz" "take_bit 2 (x - x') \<noteq> 0"
  shows "linearizeBoxVectorIndex c x y z \<noteq> linearizeBoxVectorIndex c x' y' z'"
  using assms(2) take_bit_2_diff [of x x'] linearize_x [OF assms(1)] by metis

lemma linearize_neq_y:
  assumes "validBox c kx ky kz" "take_bit 2 (y - y') \<noteq> 0"
  shows "linearizeBoxVectorIndex c x y z \<noteq> linearizeBoxVectorIndex c x' y' z'"
  using assms(2) take_bit_2_diff [of y y'] linearize_y [OF assms(1)] by metis

lemma linearize_neq_z:
  assumes "validBox c kx ky kz" "take_bit 2 (z - z') \<noteq> 0"
  shows "linearizeBoxVectorIndex c x y z \<noteq> linearizeBoxVectorIndex c x' y' z'"
  using assms(2) take_bit_2_diff [of z z'] linearize_z [OF assms(1)] by metis

lemma take_bit_2_values:
  "take_bit 2 (1 :: 32 word) \<noteq> 0" "take_bit 2 (2 :: 32 word) \<noteq> 0" "take_bit 2 (3 :: 32 word) \<noteq> 0"
  "take_bit 2 (- 1 :: 32 word) \<noteq> 0" "take_bit 2 (- 2 :: 32 word) \<noteq> 0" "take_bit 2 (- 3 :: 32 word) \<noteq> 0"
  by (simp_all add: take_bit_eq_mod)

lemma linearize_eq_False:
  assumes "validBox c kx ky kz"
  shows "take_bit 2 (x - x') \<noteq> 0 \<Longrightarrow>
           (linearizeBoxVectorIndex c x y z = linearizeBoxVectorIndex c x' y' z') = False"
    and "take_bit 2 (y - y') \<noteq> 0 \<Longrightarrow>
           (linearizeBoxVectorIndex c x y z = linearizeBoxVectorIndex c x' y' z') = False"
    and "take_bit 2 (z - z') \<noteq> 0 \<Longrightarrow>
           (linearizeBoxVectorIndex c x y z = linearizeBoxVectorIndex c x' y' z') = False"
  using linearize_neq_x [OF assms] linearize_neq_y [OF assms] linearize_neq_z [OF assms]
  by blast+

lemma frontPlaneCells_distinct:
  assumes v: "validBox c kx ky kz" and d: "d < 6"
  shows "distinct (frontPlaneCells c x y z d)"
  using direction_cases [OF d]
  by (elim disjE)
     (simp_all add: frontPlaneCells_def linearize_eq_False [OF v] take_bit_2_values)

text \<open>
  Claim C4. For every origin and direction id \<open>d\<close> in 0..5, \<^verbatim>\<open>checkFront\<close> reports
  occupied exactly if one of nine cells is non-zero: with axis \<open>a = d >> 1\<close> and sign
  \<open>s = +1\<close> for odd \<open>d\<close>, \<open>-1\<close> for even \<open>d\<close>, the cells whose coordinate on axis \<open>a\<close> is
  the origin's plus \<open>2 s\<close> while the two other coordinates take the offsets -1, 0, +1,
  each coordinate reduced by AND with the box mask in \<^verbatim>\<open>linearizeBoxVectorIndex\<close>.
  In a valid box these nine cells are pairwise different.
\<close>

theorem checkFront_nine_cells:
  assumes "d < 6"
  shows "checkFront c texLattice x0 y0 z0 d
           = list_ex (\<lambda>cell. texLattice cell \<noteq> 0) (frontPlaneCells c x0 y0 z0 d) \<and>
         length (frontPlaneCells c x0 y0 z0 d) = 9 \<and>
         (validBox c kx ky kz \<longrightarrow> distinct (frontPlaneCells c x0 y0 z0 d))"
  using checkFront_cells [OF assms] length_frontPlaneCells frontPlaneCells_distinct [OF _ assms]
  by blast

theorem checkFront_nine_cells_witness:
  "(3 :: 32 word) < 6 \<and> validBox exampleBox 2 2 2 \<and>
   distinct (frontPlaneCells exampleBox 0 0 2 3) \<and>
   checkFront exampleBox ((dpLattice exampleMemory)(linearizeBoxVectorIndex exampleBox 1 2 3 := 1)) 0 0 2 3
     = True"
proof -
  have h: "(3 :: 32 word) < 6" by simp
  have v: "validBox exampleBox 2 2 2"
    by (simp add: validBox_def exampleBox_def)
  have "linearizeBoxVectorIndex exampleBox 1 2 3 \<in> set (frontPlaneCells exampleBox 0 0 2 3)"
    by (simp add: frontPlaneCells_def linearizeBoxVectorIndex_def exampleBox_def)
  then have "list_ex (\<lambda>cell. ((dpLattice exampleMemory)(linearizeBoxVectorIndex exampleBox 1 2 3 := 1)) cell \<noteq> 0)
               (frontPlaneCells exampleBox 0 0 2 3)"
    unfolding list_ex_iff by (intro bexI [of _ "linearizeBoxVectorIndex exampleBox 1 2 3"]) simp_all
  with checkFront_nine_cells [OF h, of exampleBox
      "(dpLattice exampleMemory)(linearizeBoxVectorIndex exampleBox 1 2 3 := 1)" 0 0 2 2 2 2] h v
  show ?thesis by blast
qed

subsection \<open>The face test and the mover's own cells\<close>






section \<open>Properties of the host-side functions\<close>

subsection \<open>The bond table, the bonds and the box\<close>

lemma fold_count:
  "fold (\<lambda>i n. if P i then n + 1 else n) xs (a :: nat) = a + length (filter P xs)"
  by (induction xs arbitrary: a) simp_all

lemma count_upt: "length (filter P [0..<n]) = card {i. i < n \<and> P i}"
proof -
  have "{i. i < length [0..<n] \<and> P ([0..<n] ! i)} = {i. i < n \<and> P i}"
    by auto
  then show ?thesis
    by (simp add: length_filter_conv_card)
qed

lemma nAllowedBonds_card:
  "fold (\<lambda>i n. if \<not> mForbiddenBonds e (of_nat i) then n + 1 else n) [0..<512] (0 :: nat)
     = card {i. i < 512 \<and> \<not> mForbiddenBonds e (of_nat i)}"
  by (simp only: fold_count count_upt add_0)

text \<open>
  Claim C6. On an engine that is not yet initialised (both lattices unallocated, as the
  lifecycle requires), \<^verbatim>\<open>initialize\<close> throws the wrong-bond-set error if and only if the
  number of allowed entries among the 512 entries of the bond table differs from 108, and
  then leaves the engine as it was; with exactly 108 allowed entries it passes the
  validation and uploads the table to constant memory.
\<close>

theorem initialize_bond_count:
  assumes "mLatticeOut e = None" and "mLatticeTmp e = None"
  shows "let nAllowed = card {i. i < 512 \<and> \<not> mForbiddenBonds e (of_nat i)}
         in (fst (initialize_bondTable e) \<noteq> None \<longleftrightarrow> nAllowed \<noteq> 108) \<and>
            (nAllowed \<noteq> 108 \<longrightarrow>
               initialize_bondTable e = (Some (runtime_error (WrongBondSet nAllowed)), e)) \<and>
            (nAllowed = 108 \<longrightarrow>
               fst (initialize_bondTable e) = None \<and>
               (\<forall>i < 512. dpForbiddenBonds (constMem (snd (initialize_bondTable e))) i
                             = mForbiddenBonds e i))"
  using assms
  by (simp add: initialize_bondTable_def nAllowedBonds_card Let_def)

theorem initialize_bond_count_witness:
  "mLatticeOut firstAllowed = None \<and> mLatticeTmp firstAllowed = None \<and>
   card {i. i < 512 \<and> \<not> mForbiddenBonds firstAllowed (of_nat i)} = 108 \<and>
   fst (initialize_bondTable firstAllowed) = None"
proof -
  have h1: "mLatticeOut firstAllowed = None" and h2: "mLatticeTmp firstAllowed = None"
    by (simp_all add: firstAllowed_def constructed_def)
  have eval: "fst (initialize_bondTable firstAllowed) = None"
    by code_simp
  from initialize_bond_count [OF h1 h2] eval h1 h2 show ?thesis
    unfolding Let_def by blast
qed

text \<open>
  Claim C8, evaluated on the code. With 7 stored neighbours of monomer 0,
  \<^verbatim>\<open>setConnectivity\<close> throws, as the claim says, but the engine is not unchanged: the
  post-increment has already raised the stored count to 8, beyond the capacity
  \<^verbatim>\<open>MAX_CONNECTIVITY\<close> that \<^verbatim>\<open>initialize\<close> itself checks.
\<close>

theorem setConnectivity_overflow_mutates:
  "size_edges (mNeighbors sevenBonds 0) = 7 \<and>
   fst (setConnectivity sevenBonds 0 8) = Some (invalid_argument ConnectivityExceeded) \<and>
   size_edges (mNeighbors (snd (setConnectivity sevenBonds 0 8)) 0) = 8"
  by code_simp

subsection \<open>Powers of two in \<^verbatim>\<open>setLatticeSize\<close>\<close>

lemma powerOfTwo_iff: "powerOfTwo v \<longleftrightarrow> (\<exists>k < 32. v = 2 ^ k)"
  by (auto simp: powerOfTwo_def list_ex_iff)

lemma shiftCount_pow2:
  "a < 32 \<Longrightarrow> shiftCount (2 ^ a) n = n + of_nat a"
proof (induction a arbitrary: n)
  case 0
  then show ?case by (simp add: shiftCount.simps)
next
  case (Suc a)
  then have a: "a < 32" by simp
  have "drop_bit 1 (2 ^ Suc a :: 32 word)
          = of_bool (1 \<le> Suc a \<and> possible_bit TYPE(32 word) (Suc a)) * 2 ^ (Suc a - 1)"
    by (rule drop_bit_exp_eq)
  then have d: "drop_bit 1 (2 ^ Suc a :: 32 word) = 2 ^ a"
    using Suc.prems by (simp del: power_Suc)
  have nz: "(2 ^ a :: 32 word) \<noteq> 0"
    using a by simp
  have "shiftCount (2 ^ Suc a) n = shiftCount (2 ^ a) (n + 1)"
    by (subst shiftCount.simps) (simp only: d nz if_True simp_thms)
  then show ?case
    by (simp add: Suc.IH [OF a])
qed

lemma shiftCount_zero: "shiftCount 0 0 = 0"
  by (simp add: shiftCount.simps)

text \<open>A value that equals \<^verbatim>\<open>1u << log2\<close> for the counted shift is a power of two.\<close>

lemma shift_test_powerOfTwo:
  assumes "v = push_bit (unat (shiftCount v 0)) 1"
  shows "powerOfTwo v"
proof (cases "unat (shiftCount v 0) < 32")
  case True
  with assms show ?thesis
    unfolding powerOfTwo_iff by (intro exI [of _ "unat (shiftCount v 0)"]) simp
next
  case False
  then have "(2 :: 32 word) ^ unat (shiftCount v 0) = 0" by simp
  then have "push_bit (unat (shiftCount v 0)) (1 :: 32 word) = 0" by simp
  with assms have v: "v = 0" by simp
  from assms have "(0 :: 32 word) = push_bit (unat (shiftCount (0 :: 32 word) 0)) 1"
    unfolding v .
  then show ?thesis by (simp add: shiftCount_zero)
qed

lemma powerOfTwo_shift_test:
  assumes "powerOfTwo v"
  shows "v = push_bit (unat (shiftCount v 0)) 1"
proof -
  from assms obtain k where k: "k < 32" "v = 2 ^ k"
    unfolding powerOfTwo_iff by blast
  have "unat (of_nat k :: 32 word) = k"
    by (rule of_nat_inverse [OF refl]) (use k in simp)
  then show ?thesis
    by (simp add: k shiftCount_pow2)
qed

lemma pow2_mult_eq_pow2:
  fixes y :: nat
  assumes "2 ^ a * y = (2 :: nat) ^ k"
  shows "y = 2 ^ (k - a)"
proof (cases "a \<le> k")
  case True
  then have "(2 :: nat) ^ k = 2 ^ a * 2 ^ (k - a)"
    by (simp flip: power_add)
  with assms have "2 ^ a * y = (2 :: nat) ^ a * 2 ^ (k - a)" by simp
  then show ?thesis by simp
next
  case False
  then have "(2 :: nat) ^ k < 2 ^ a" by simp
  with assms have "2 ^ a * y < (2 :: nat) ^ a * 1" by simp
  then have "y < 1" by (simp only: mult_less_cancel1)
  with assms show ?thesis by simp
qed

lemma unat_pow2:
  assumes "k < 32"
  shows "unat (2 ^ k :: 32 word) = 2 ^ k"
proof (rule of_nat_inverse)
  show "word_of_nat (2 ^ k) = (2 ^ k :: 32 word)" by simp
  have "(2 :: nat) ^ k < 2 ^ 32"
    using assms by (rule power_strict_increasing) simp
  then show "(2 :: nat) ^ k < 2 ^ LENGTH(32)" by simp
qed

lemma powerOfTwo_factor:
  assumes x: "powerOfTwo boxX" and p: "powerOfTwo (boxX * boxY)"
    and no: "unat boxX * unat boxY < 2 ^ 32"
  shows "powerOfTwo boxY"
proof -
  from x obtain a where a: "a < 32" "boxX = 2 ^ a" unfolding powerOfTwo_iff by blast
  from p obtain k where k: "k < 32" "boxX * boxY = 2 ^ k" unfolding powerOfTwo_iff by blast
  have "unat (boxX * boxY) = unat boxX * unat boxY"
    using no unat_mult_lem [of boxX boxY] by simp
  then have "2 ^ a * unat boxY = (2 :: nat) ^ k"
    using a k by (simp add: unat_pow2)
  then have y: "unat boxY = 2 ^ (k - a)"
    by (rule pow2_mult_eq_pow2)
  have "k - a < 32" using k by simp
  moreover have "boxY = of_nat (unat boxY)" by simp
  then have "boxY = 2 ^ (k - a)"
    unfolding y by simp
  ultimately show ?thesis
    unfolding powerOfTwo_iff by blast
qed

lemma powerOfTwo_pow2: "k < 32 \<Longrightarrow> powerOfTwo (2 ^ k)"
  unfolding powerOfTwo_iff by blast

lemma inRange_pow2: "k < 31 \<Longrightarrow> inRange (2 ^ k)"
proof -
  assume k: "k < 31"
  then have "unat (2 ^ k :: 32 word) = 2 ^ k" by (simp add: unat_pow2)
  moreover have "(2 :: nat) ^ k < 2 ^ 31"
    using k by (rule power_strict_increasing) simp
  ultimately have "unat (2 ^ k :: 32 word) < 2 ^ 31" by simp
  then have "int (unat (2 ^ k :: 32 word)) < 2 ^ 31"
    by (metis of_nat_less_iff of_nat_numeral of_nat_power)
  then have "uint (2 ^ k :: 32 word) < 2 ^ 31"
    by (simp only: uint_nat)
  then show ?thesis by (simp add: inRange_def)
qed

text \<open>
  Claim C7, amended. A call of \<^verbatim>\<open>setLatticeSize\<close> with a box different from the stored
  one throws whenever \<^verbatim>\<open>boxX\<close> is not a power of two, and whenever \<^verbatim>\<open>boxY\<close> is not a
  power of two and \<open>boxX * boxY < 2 ^ 32\<close>; it succeeds, storing the edges, the masks
  \<open>B - 1\<close> and the shifts \<open>log2 Bx\<close> and \<open>log2 (Bx * By)\<close> and allocating the lattice,
  when the three edges are powers of two below \<open>2 ^ 31\<close> with \<open>Bx * By < 2 ^ 32\<close>.
\<close>

theorem setLatticeSize_power_of_two:
  assumes "\<not> (mBoxX e = boxX \<and> mBoxY e = boxY \<and> mBoxZ e = boxZ)"
  shows "(\<not> powerOfTwo boxX \<longrightarrow> fst (setLatticeSize e boxX boxY boxZ) \<noteq> None) \<and>
         (\<not> powerOfTwo boxY \<and> unat boxX * unat boxY < 2 ^ 32 \<longrightarrow>
            fst (setLatticeSize e boxX boxY boxZ) \<noteq> None) \<and>
         (\<forall>a b c. boxX = 2 ^ a \<and> boxY = 2 ^ b \<and> boxZ = 2 ^ c \<and>
                  a < 31 \<and> b < 31 \<and> c < 31 \<and> a + b < 32 \<longrightarrow>
            setLatticeSize e boxX boxY boxZ =
              (None, e\<lparr>mBoxX := boxX, mBoxY := boxY, mBoxZ := boxZ,
                        mBoxXM1 := boxX - 1, mBoxYM1 := boxY - 1, mBoxZM1 := boxZ - 1,
                        mBoxXLog2 := of_nat a, mBoxXYLog2 := of_nat (a + b),
                        mLattice := Some (\<lambda>_. 0)\<rparr>))"
proof (intro conjI impI allI)
  assume "\<not> powerOfTwo boxX"
  then have "boxX \<noteq> push_bit (unat (shiftCount boxX 0)) 1"
    using shift_test_powerOfTwo [of boxX] by blast
  then show "fst (setLatticeSize e boxX boxY boxZ) \<noteq> None"
    using assms by (simp add: setLatticeSize_def Let_def)
next
  assume y: "\<not> powerOfTwo boxY \<and> unat boxX * unat boxY < 2 ^ 32"
  have "boxX \<noteq> push_bit (unat (shiftCount boxX 0)) 1 \<or>
        boxX * boxY \<noteq> push_bit (unat (shiftCount (boxX * boxY) 0)) 1"
    using shift_test_powerOfTwo [of boxX] shift_test_powerOfTwo [of "boxX * boxY"]
      powerOfTwo_factor [of boxX boxY] y by blast
  then show "fst (setLatticeSize e boxX boxY boxZ) \<noteq> None"
    using assms by (simp add: setLatticeSize_def Let_def)
next
  fix a b c
  assume h: "boxX = 2 ^ a \<and> boxY = 2 ^ b \<and> boxZ = 2 ^ c \<and>
             a < 31 \<and> b < 31 \<and> c < 31 \<and> a + b < 32"
  then have r: "inRange boxX" "inRange boxY" "inRange boxZ"
    by (simp_all add: inRange_pow2)
  from h have xy: "boxX * boxY = 2 ^ (a + b)"
    by (simp add: power_add)
  from h have lx: "shiftCount boxX 0 = of_nat a"
    by (simp add: shiftCount_pow2)
  from h have lxy: "shiftCount (boxX * boxY) 0 = of_nat (a + b)"
    unfolding xy by (simp add: shiftCount_pow2 del: of_nat_add)
  have t1: "boxX = push_bit (unat (shiftCount boxX 0)) 1"
    by (rule powerOfTwo_shift_test) (use h in \<open>simp add: powerOfTwo_pow2\<close>)
  have "powerOfTwo (boxX * boxY)"
    unfolding xy by (rule powerOfTwo_pow2) (use h in simp)
  then have t2: "boxX * boxY = push_bit (unat (shiftCount (boxX * boxY) 0)) 1"
    by (rule powerOfTwo_shift_test)
  have res: "setLatticeSize e boxX boxY boxZ =
              (None, e\<lparr>mBoxX := boxX, mBoxY := boxY, mBoxZ := boxZ,
                        mBoxXM1 := boxX - 1, mBoxYM1 := boxY - 1, mBoxZM1 := boxZ - 1,
                        mBoxXLog2 := shiftCount boxX 0,
                        mBoxXYLog2 := shiftCount (boxX * boxY) 0,
                        mLattice := Some (\<lambda>_. 0)\<rparr>)"
    using assms r t1 t2
    by (auto simp: setLatticeSize_def Let_def)
  show "setLatticeSize e boxX boxY boxZ =
              (None, e\<lparr>mBoxX := boxX, mBoxY := boxY, mBoxZ := boxZ,
                        mBoxXM1 := boxX - 1, mBoxYM1 := boxY - 1, mBoxZM1 := boxZ - 1,
                        mBoxXLog2 := of_nat a, mBoxXYLog2 := of_nat (a + b),
                        mLattice := Some (\<lambda>_. 0)\<rparr>)"
    unfolding res lx lxy ..
qed

text \<open>
  Claim C7 as stated fails in both directions. Accepted without an error: the box
  4 x 4 x 3, since only \<^verbatim>\<open>boxX\<close> and \<^verbatim>\<open>boxX * boxY\<close> are validated; the box
  65536 x 98304 x 4, since \<^verbatim>\<open>boxX * boxY\<close> is computed in 32 bits; the box 0 x 0 x 0 on
  a new object, since an unchanged box returns at once. Rejected although the edges are
  powers of two: 65536 x 65536 x 4, whose product overflows, and \<open>2 ^ 31\<close> x 4 x 4, which
  does not fit \<^verbatim>\<open>intCUDA\<close>.
\<close>

theorem setLatticeSize_power_of_two_counterexample:
  "\<not> powerOfTwo 3 \<and> fst (setLatticeSize constructed 4 4 3) = None \<and>
   mBoxZ (snd (setLatticeSize constructed 4 4 3)) = 3 \<and>
   mBoxZM1 (snd (setLatticeSize constructed 4 4 3)) = 2 \<and>
   \<not> isPowerOfTwo (mBoxZM1 (snd (setLatticeSize constructed 4 4 3)) + 1) \<and>
   \<not> powerOfTwo 98304 \<and> fst (setLatticeSize constructed 65536 98304 4) = None \<and>
   \<not> powerOfTwo 0 \<and> fst (setLatticeSize constructed 0 0 0) = None \<and>
   powerOfTwo 65536 \<and> powerOfTwo 4 \<and>
   fst (setLatticeSize constructed 65536 65536 4) = Some (runtime_error NotPowerOfTwo) \<and>
   powerOfTwo 2147483648 \<and>
   fst (setLatticeSize constructed 2147483648 4 4) = Some (invalid_argument BoxTooLarge)"
  by code_simp

theorem setLatticeSize_power_of_two_witness:
  "\<not> (mBoxX constructed = 8 \<and> mBoxY constructed = 8 \<and> mBoxZ constructed = 8) \<and>
   \<not> powerOfTwo 6 \<and>
   fst (setLatticeSize constructed 6 8 8) \<noteq> None \<and>
   fst (setLatticeSize constructed 8 8 8) = None \<and>
   mBoxXLog2 (snd (setLatticeSize constructed 8 8 8)) = 3 \<and>
   mBoxXYLog2 (snd (setLatticeSize constructed 8 8 8)) = 6"
proof -
  have h8: "\<not> (mBoxX constructed = 8 \<and> mBoxY constructed = 8 \<and> mBoxZ constructed = 8)"
    by (simp add: constructed_def)
  have h6: "\<not> (mBoxX constructed = 6 \<and> mBoxY constructed = 8 \<and> mBoxZ constructed = 8)"
    by (simp add: constructed_def)
  have n6: "\<not> powerOfTwo 6" by code_simp
  have p8: "(8 :: 32 word) = 2 ^ 3 \<and> (8 :: 32 word) = 2 ^ 3 \<and> (8 :: 32 word) = 2 ^ 3 \<and>
            (3 :: nat) < 31 \<and> (3 :: nat) < 31 \<and> (3 :: nat) < 31 \<and> (3 :: nat) + 3 < 32"
    by simp
  from setLatticeSize_power_of_two [OF h6] n6
  have a: "fst (setLatticeSize constructed 6 8 8) \<noteq> None" by blast
  from setLatticeSize_power_of_two [OF h8] p8
  have "setLatticeSize constructed 8 8 8 =
          (None, constructed\<lparr>mBoxX := 8, mBoxY := 8, mBoxZ := 8,
                        mBoxXM1 := 8 - 1, mBoxYM1 := 8 - 1, mBoxZM1 := 8 - 1,
                        mBoxXLog2 := of_nat 3, mBoxXYLog2 := of_nat (3 + 3),
                        mLattice := Some (\<lambda>_. 0)\<rparr>)"
    by blast
  then have b: "fst (setLatticeSize constructed 8 8 8) = None"
    "mBoxXLog2 (snd (setLatticeSize constructed 8 8 8)) = 3"
    "mBoxXYLog2 (snd (setLatticeSize constructed 8 8 8)) = 6"
    by simp_all
  from h8 n6 a b show ?thesis by blast
qed

subsection \<open>Zero Monte-Carlo steps\<close>

lemma fold_other:
  assumes "\<And>i h. i \<in> set xs \<Longrightarrow> w i h j = h j"
  shows "fold w xs h0 j = h0 j"
  using assms by (induction xs arbitrary: h0) simp_all

lemma fold_last_writer:
  assumes "i \<in> set xs"
    and self: "\<And>h. w i h j = v"
    and others: "\<And>i' h. i' \<in> set xs \<Longrightarrow> i' \<noteq> i \<Longrightarrow> w i' h j = h j"
  shows "fold w xs h0 j = v"
  using assms(1) others
proof (induction xs arbitrary: h0)
  case Nil
  then show ?case by simp
next
  case (Cons k xs)
  show ?case
  proof (cases "i \<in> set xs")
    case True
    then have "fold w xs (w k h0) j = v"
      by (rule Cons.IH) (simp add: Cons.prems(2))
    then show ?thesis by simp
  next
    case False
    with Cons.prems(1) have k: "k = i" by simp
    have "fold w xs (w i h0) j = w i h0 j"
      by (rule fold_other) (use False Cons.prems(2) in auto)
    then show ?thesis by (simp add: k self)
  qed
qed

lemma write4_other:
  fixes p q :: nat
  assumes "p \<noteq> q"
  shows "(h(4 * p := a, 4 * p + 1 := b, 4 * p + 2 := c, 4 * p + 3 := d)) (4 * q) = h (4 * q)"
    "(h(4 * p := a, 4 * p + 1 := b, 4 * p + 2 := c, 4 * p + 3 := d)) (4 * q + 1) = h (4 * q + 1)"
    "(h(4 * p := a, 4 * p + 1 := b, 4 * p + 2 := c, 4 * p + 3 := d)) (4 * q + 2) = h (4 * q + 2)"
    "(h(4 * p := a, 4 * p + 1 := b, 4 * p + 2 := c, 4 * p + 3 := d)) (4 * q + 3) = h (4 * q + 3)"
  using assms by (auto simp: fun_upd_def)

lemma write4_self:
  fixes p :: nat
  shows "(h(4 * p := a, 4 * p + 1 := b, 4 * p + 2 := c, 4 * p + 3 := d)) (4 * p) = a"
    "(h(4 * p := a, 4 * p + 1 := b, 4 * p + 2 := c, 4 * p + 3 := d)) (4 * p + 1) = b"
    "(h(4 * p := a, 4 * p + 1 := b, 4 * p + 2 := c, 4 * p + 3 := d)) (4 * p + 2) = c"
    "(h(4 * p := a, 4 * p + 1 := b, 4 * p + 2 := c, 4 * p + 3 := d)) (4 * p + 3) = d"
  by (auto simp: fun_upd_def)

lemma initialize_sortMonomers_sync:
  assumes "inj_on (iToiNew e) {..<nAllMonomers e}"
  shows "sortedInSync (initialize_sortMonomers e)"
proof -
  define e1 where "e1 = e\<lparr>mPolymerSystem :=
                   fold (\<lambda>i ps. ps(4 * i + 3 := ps (4 * i + 3) OR push_bit 5 (size_edges (mNeighbors e i))))
                     [0..<nAllMonomers e] (mPolymerSystem e)\<rparr>"
  define w where "w = (\<lambda>i h. h(4 * iToiNew e1 i := mPolymerSystem e1 (4 * i),
                                4 * iToiNew e1 i + 1 := mPolymerSystem e1 (4 * i + 1),
                                4 * iToiNew e1 i + 2 := mPolymerSystem e1 (4 * i + 2),
                                4 * iToiNew e1 i + 3 := mPolymerSystem e1 (4 * i + 3)))"
  define host where "host = fold w [0..<nAllMonomers e1] (\<lambda>_. 0)"
  have n: "nAllMonomers e1 = nAllMonomers e" and f: "iToiNew e1 = iToiNew e"
    by (simp_all add: e1_def)
  have res: "initialize_sortMonomers e =
      e1\<lparr>mPolymerSystemSorted := Some host,
         gpu := (gpu e1)\<lparr>dpPolymerSystem :=
                      (\<lambda>j. \<lparr>x4 = host (4 * j), y4 = host (4 * j + 1),
                             z4 = host (4 * j + 2), w4 = host (4 * j + 3)\<rparr>)\<rparr>\<rparr>"
    unfolding initialize_sortMonomers_def Let_def host_def w_def e1_def ..
  have host: "host (4 * iToiNew e i) = mPolymerSystem e1 (4 * i) \<and>
              host (4 * iToiNew e i + 1) = mPolymerSystem e1 (4 * i + 1) \<and>
              host (4 * iToiNew e i + 2) = mPolymerSystem e1 (4 * i + 2) \<and>
              host (4 * iToiNew e i + 3) = mPolymerSystem e1 (4 * i + 3)"
    if i: "i < nAllMonomers e" for i
  proof -
    have mem: "i \<in> set [0..<nAllMonomers e1]" using i n by simp
    have neq: "iToiNew e i' \<noteq> iToiNew e i" if "i' \<in> set [0..<nAllMonomers e1]" "i' \<noteq> i" for i'
      using that i n assms by (auto simp: inj_on_def)
    have o: "w i' h (4 * iToiNew e i) = h (4 * iToiNew e i)"
      "w i' h (4 * iToiNew e i + 1) = h (4 * iToiNew e i + 1)"
      "w i' h (4 * iToiNew e i + 2) = h (4 * iToiNew e i + 2)"
      "w i' h (4 * iToiNew e i + 3) = h (4 * iToiNew e i + 3)"
      if "i' \<in> set [0..<nAllMonomers e1]" "i' \<noteq> i" for i' h
      unfolding w_def f by (rule write4_other [OF neq [OF that]])+
    have s: "w i h (4 * iToiNew e i) = mPolymerSystem e1 (4 * i)"
      "w i h (4 * iToiNew e i + 1) = mPolymerSystem e1 (4 * i + 1)"
      "w i h (4 * iToiNew e i + 2) = mPolymerSystem e1 (4 * i + 2)"
      "w i h (4 * iToiNew e i + 3) = mPolymerSystem e1 (4 * i + 3)" for h
      unfolding w_def f by (rule write4_self)+
    have "host (4 * iToiNew e i) = mPolymerSystem e1 (4 * i)"
      unfolding host_def
      by (rule fold_last_writer [of i "[0..<nAllMonomers e1]" w "4 * iToiNew e i" "mPolymerSystem e1 (4 * i)"])
         (rule mem, rule s(1), rule o(1))
    moreover have "host (4 * iToiNew e i + 1) = mPolymerSystem e1 (4 * i + 1)"
      unfolding host_def
      by (rule fold_last_writer [of i "[0..<nAllMonomers e1]" w "4 * iToiNew e i + 1" "mPolymerSystem e1 (4 * i + 1)"])
         (rule mem, rule s(2), rule o(2))
    moreover have "host (4 * iToiNew e i + 2) = mPolymerSystem e1 (4 * i + 2)"
      unfolding host_def
      by (rule fold_last_writer [of i "[0..<nAllMonomers e1]" w "4 * iToiNew e i + 2" "mPolymerSystem e1 (4 * i + 2)"])
         (rule mem, rule s(3), rule o(3))
    moreover have "host (4 * iToiNew e i + 3) = mPolymerSystem e1 (4 * i + 3)"
      unfolding host_def
      by (rule fold_last_writer [of i "[0..<nAllMonomers e1]" w "4 * iToiNew e i + 3" "mPolymerSystem e1 (4 * i + 3)"])
         (rule mem, rule s(4), rule o(4))
    ultimately show ?thesis by blast
  qed
  show ?thesis
    unfolding sortedInSync_def res
    using host by (simp add: n f)
qed

lemma fold_write4_same:
  assumes "\<forall>i \<in> set xs. a i = ps (4 * i) \<and> b i = ps (4 * i + 1) \<and> c i = ps (4 * i + 2) \<and>
             d i = ps (4 * i + 3)"
  shows "fold (\<lambda>i ps. ps(4 * i := a i, 4 * i + 1 := b i, 4 * i + 2 := c i, 4 * i + 3 := d i)) xs ps = ps"
  using assms by (induction xs) simp_all

lemma checkSystem_frame:
  "mPolymerSystem (snd (checkSystem e)) = mPolymerSystem e"
  "mNeighbors (snd (checkSystem e)) = mNeighbors e"
  "gpu (snd (checkSystem e)) = gpu e"
  "\<not> logCheck e \<Longrightarrow> fst (checkSystem e) = None"
  by (simp_all add: checkSystem_def Let_def)

lemma pop_components:
  "popPolymerSystemSorted m (4 * j) = x4 (dpPolymerSystem m j)"
  "popPolymerSystemSorted m (4 * j + 1) = y4 (dpPolymerSystem m j)"
  "popPolymerSystemSorted m (4 * j + 2) = z4 (dpPolymerSystem m j)"
  "popPolymerSystemSorted m (4 * j + 3) = w4 (dpPolymerSystem m j)"
proof -
  have "(4 * j) div 4 = j" "(4 * j) mod 4 = 0" "(4 * j + 1) div 4 = j" "(4 * j + 1) mod 4 = 1"
    "(4 * j + 2) div 4 = j" "(4 * j + 2) mod 4 = 2" "(4 * j + 3) div 4 = j" "(4 * j + 3) mod 4 = 3"
    by presburger+
  then show "popPolymerSystemSorted m (4 * j) = x4 (dpPolymerSystem m j)"
    "popPolymerSystemSorted m (4 * j + 1) = y4 (dpPolymerSystem m j)"
    "popPolymerSystemSorted m (4 * j + 2) = z4 (dpPolymerSystem m j)"
    "popPolymerSystemSorted m (4 * j + 3) = w4 (dpPolymerSystem m j)"
    unfolding popPolymerSystemSorted_def Let_def by (simp_all only: if_True if_False) simp_all
qed

text \<open>
  Claim C9. On an initialised engine, whose device array holds every monomer at its
  sorted index, \<^verbatim>\<open>runSimulationOnGPU( 0 )\<close> changes nothing that the claim names: the
  positions \<^verbatim>\<open>getMonomerPositionInX/Y/Z\<close> return in the original order (and the whole
  array \<^verbatim>\<open>mPolymerSystem\<close>), the bonds on the host and on the device, and the bytes of
  the committed lattice are those before the call; unless the "Check" level is active,
  the call does not throw.
\<close>

theorem runSimulationOnGPU_zero_steps:
  assumes "sortedInSync e"
  shows "mPolymerSystem (snd (runSimulationOnGPU 0 e)) = mPolymerSystem e \<and>
         (\<forall>i. getMonomerPositionInX (snd (runSimulationOnGPU 0 e)) i = getMonomerPositionInX e i \<and>
              getMonomerPositionInY (snd (runSimulationOnGPU 0 e)) i = getMonomerPositionInY e i \<and>
              getMonomerPositionInZ (snd (runSimulationOnGPU 0 e)) i = getMonomerPositionInZ e i) \<and>
         mNeighbors (snd (runSimulationOnGPU 0 e)) = mNeighbors e \<and>
         dpNeighbors (gpu (snd (runSimulationOnGPU 0 e))) = dpNeighbors (gpu e) \<and>
         dpLattice (gpu (snd (runSimulationOnGPU 0 e))) = dpLattice (gpu e) \<and>
         (\<not> logCheck e \<longrightarrow> fst (runSimulationOnGPU 0 e) = None)"
proof -
  define host where "host = popPolymerSystemSorted (gpu e)"
  have same: "\<forall>i \<in> set [0..<nAllMonomers e].
      host (4 * iToiNew e i) = mPolymerSystem e (4 * i) \<and>
      host (4 * iToiNew e i + 1) = mPolymerSystem e (4 * i + 1) \<and>
      host (4 * iToiNew e i + 2) = mPolymerSystem e (4 * i + 2) \<and>
      host (4 * iToiNew e i + 3) = mPolymerSystem e (4 * i + 3)"
    using assms unfolding sortedInSync_def host_def pop_components by auto
  have untangle: "fold (\<lambda>i ps. ps(4 * i := host (4 * iToiNew e i),
                               4 * i + 1 := host (4 * iToiNew e i + 1),
                               4 * i + 2 := host (4 * iToiNew e i + 2),
                               4 * i + 3 := host (4 * iToiNew e i + 3)))
                 [0..<nAllMonomers e] (mPolymerSystem e) = mPolymerSystem e"
    by (rule fold_write4_same) (use same in blast)
  have main: "mPolymerSystem (snd (runSimulationOnGPU 0 e)) = mPolymerSystem e \<and>
         mNeighbors (snd (runSimulationOnGPU 0 e)) = mNeighbors e \<and>
         gpu (snd (runSimulationOnGPU 0 e)) = gpu e \<and>
         (\<not> logCheck e \<longrightarrow> fst (runSimulationOnGPU 0 e) = None)"
    using untangle
    by (simp add: runSimulationOnGPU_def Let_def host_def checkSystem_frame)
  then show ?thesis
    by (simp add: getMonomerPositionInX_def getMonomerPositionInY_def getMonomerPositionInZ_def)
qed

lemma twoMonomers_members:
  "nAllMonomers twoMonomers = 2" "iToiNew twoMonomers = (\<lambda>i. 1 - i)" "\<not> logCheck twoMonomers"
  by (simp_all add: twoMonomers_def initialize_sortMonomers_def setConnectivity_def
        setNrOfAllMonomers_def constructed_def Let_def)

theorem runSimulationOnGPU_zero_steps_witness:
  "sortedInSync twoMonomers \<and>
   mPolymerSystem (snd (runSimulationOnGPU 0 twoMonomers)) = mPolymerSystem twoMonomers \<and>
   mNeighbors (snd (runSimulationOnGPU 0 twoMonomers)) = mNeighbors twoMonomers \<and>
   dpLattice (gpu (snd (runSimulationOnGPU 0 twoMonomers))) = dpLattice (gpu twoMonomers) \<and>
   fst (runSimulationOnGPU 0 twoMonomers) = None"
proof -
  have h: "sortedInSync twoMonomers"
    unfolding twoMonomers_def
    by (rule initialize_sortMonomers_sync)
       (auto simp: inj_on_def setConnectivity_def setNrOfAllMonomers_def constructed_def Let_def)
  from runSimulationOnGPU_zero_steps [OF h] h twoMonomers_members(3)
  show ?thesis by blast
qed

end
